theory Spec2Isabelle
  imports Main "HOL-Library.Sublist"
begin

section \<open>Data model\<close>

text \<open>
  The storage engine of cloudmodular keeps one row per file or directory in the table
  \<^verbatim>\<open>datainfo\<close> (apps/storage/models.py) and one object per row in the file system, at
  \<^verbatim>\<open>{SERVER["storage"]}/storage/{user_id}/root{root}{name}\<close>.

  A row carries the columns the storage managers read or write. The fields are prefixed
  with \<open>info_\<close> because \<open>id\<close> and \<open>size\<close> are constants of HOL and because the
  source's parameter names (\<open>user_id\<close>, \<open>is_dir\<close>) are kept for the parameters of the
  functions below. The columns \<^verbatim>\<open>created\<close> (filled by the server clock) and
  \<^verbatim>\<open>is_favorite\<close> are never tested or written by the code modelled here and are left out.
  Python integers are unbounded, hence \<open>int\<close>.
\<close>

record datainfo =
  info_id :: int
  info_root :: string
  info_name :: string
  info_is_dir :: bool
  info_size :: int
  info_user_id :: int

text \<open>The part of a \<^verbatim>\<open>User\<close> row the managers look at.\<close>

record user =
  usr_id :: int
  usr_email :: string
  usr_is_admin :: bool

text \<open>The request body \<^verbatim>\<open>DataInfoCreate\<close> handed to the metadata store on a create.\<close>

record datainfo_create =
  fmt_name :: string
  fmt_root :: string
  fmt_user_id :: int
  fmt_is_dir :: bool
  fmt_size :: int

text \<open>An uploaded file: the client-supplied file name and the bytes sent.\<close>

record upload_file =
  file_filename :: string
  file_content :: string

text \<open>An object of the physical store: a regular file with its bytes, or a directory.\<close>

datatype fsobj = PFile string | PDir

text \<open>
  Every exception class a modelled path can raise. \<open>CommitError\<close> stands for whatever
  \<^verbatim>\<open>session.commit()\<close> raises when the relational store refuses a transaction,
  \<open>MultipleResultsFound\<close> is what SQLAlchemy's \<^verbatim>\<open>Query.scalar()\<close> raises on more than
  one row, \<open>AttributeError\<close> is Python's answer to \<^verbatim>\<open>None.root\<close>, \<open>OSError\<close> what
  \<^verbatim>\<open>os.path.getsize\<close> raises on a missing path, and \<open>InvalidCredential\<close> what the
  token decoder raises.
\<close>

datatype error =
    PermissionError
  | UserNotFound
  | DataNotFound
  | DataAlreadyExists
  | ValidationError
  | MultipleResultsFound
  | AttributeError
  | CommitError
  | OSError
  | InvalidCredential

text \<open>
  The whole state the managers act on: the user table, the \<^verbatim>\<open>datainfo\<close> table with its
  autoincrement counter, the physical store as an association list from absolute paths to
  objects, and the configured value of \<^verbatim>\<open>SERVER["storage"]\<close>.
\<close>

record state =
  users :: "user list"
  datainfos :: "datainfo list"
  autoincrement :: int
  storage :: "(string \<times> fsobj) list"
  server_storage :: string

section \<open>Strings\<close>

text \<open>Python's \<^verbatim>\<open>s.split(sep)\<close> for a one-character separator: never empty.\<close>

fun split_str :: "char \<Rightarrow> string \<Rightarrow> string list" where
  "split_str sep [] = [[]]"
| "split_str sep (c # cs) =
     (if c = sep then [] # split_str sep cs
      else (case split_str sep cs of
              [] \<Rightarrow> [[c]]
            | w # ws \<Rightarrow> (c # w) # ws))"

text \<open>
  SQL's \<^verbatim>\<open>REPLACE(s, from, to)\<close>: every occurrence of \<open>from\<close> in \<open>s\<close>, scanning from
  the left and without overlap, is replaced by \<open>to\<close>; an empty \<open>from\<close> changes nothing.
\<close>

function sql_replace :: "string \<Rightarrow> string \<Rightarrow> string \<Rightarrow> string" where
  "sql_replace [] frm to = []"
| "sql_replace (c # cs) frm to =
     (if frm \<noteq> [] \<and> prefix frm (c # cs)
      then to @ sql_replace (drop (length frm) (c # cs)) frm to
      else c # sql_replace cs frm to)"
  by pat_completeness auto
termination
  by (relation "measure (\<lambda>(s, frm, to). length s)") (auto simp: neq_Nil_conv)

text \<open>
  SQL's \<^verbatim>\<open>s LIKE pattern\<close>: in the pattern \<open>%\<close> stands for any run of characters and
  \<open>_\<close> for any one character; every other character stands for itself. SQLAlchemy
  renders \<^verbatim>\<open>column.startswith(x)\<close> as \<^verbatim>\<open>column LIKE x || '%'\<close> and does not escape
  the wildcards that \<open>x\<close> itself contains. Characters are compared exactly, as in a
  database whose \<^verbatim>\<open>LIKE\<close> does not fold case.
\<close>

fun like_match :: "string \<Rightarrow> string \<Rightarrow> bool" where
  "like_match [] s = (s = [])"
| "like_match (p # ps) [] = (p = CHR ''%'' \<and> like_match ps [])"
| "like_match (p # ps) (c # cs) =
     (if p = CHR ''%'' then like_match ps (c # cs) \<or> like_match (p # ps) cs
      else (p = CHR ''_'' \<or> p = c) \<and> like_match ps cs)"

definition sql_startswith :: "string \<Rightarrow> string \<Rightarrow> bool" where
  "sql_startswith column x = like_match (x @ ''%'') column"

text \<open>Python's \<^verbatim>\<open>str(n)\<close> inside an f-string, for the owner id in a physical path.\<close>

definition digit_char :: "nat \<Rightarrow> char" where
  "digit_char n = ''0123456789'' ! n"

fun str_nat :: "nat \<Rightarrow> string" where
  "str_nat n = (if n < 10 then [digit_char n] else str_nat (n div 10) @ [digit_char (n mod 10)])"

declare str_nat.simps [simp del]

definition str_int :: "int \<Rightarrow> string" where
  "str_int i = (if i < 0 then CHR ''-'' # str_nat (nat (- i)) else str_nat (nat i))"

text \<open>
  The physical path of a row:
  \<^verbatim>\<open>f'{SERVER["storage"]}/storage/{user_id}/root{root}{name}'\<close>.
\<close>

definition raw_root_of :: "state \<Rightarrow> int \<Rightarrow> string \<Rightarrow> string \<Rightarrow> string" where
  "raw_root_of s user_id root name =
     server_storage s @ ''/storage/'' @ str_int user_id @ ''/root'' @ root @ name"

text \<open>A result of SQLAlchemy's \<^verbatim>\<open>Query.scalar()\<close>: no row, the one row, or an exception.\<close>

definition scalar :: "'a list \<Rightarrow> error + 'a option" where
  "scalar rows =
     (case rows of
        [] \<Rightarrow> Inr None
      | [x] \<Rightarrow> Inr (Some x)
      | x # y # zs \<Rightarrow> Inl MultipleResultsFound)"

section \<open>Collaborators that are not part of the storage package\<close>

text \<open>
  Modelled from the spec: the request validators \<^verbatim>\<open>DataInfoCreate\<close> and
  \<^verbatim>\<open>DataInfoUpdate\<close> of apps/storage/schemas.py. The specification (4.1) says that a name
  is rejected when it is empty or contains one of \<^verbatim>\<open>/ \ : * " ' < > |\<close>.
\<close>

definition forbidden_chars :: "char list" where
  "forbidden_chars =
     [CHR ''/'', CHR 0x5C, CHR '':'', CHR ''*'', CHR 0x22, CHR 0x27, CHR ''<'', CHR ''>'', CHR ''|'']"

definition valid_name :: "string \<Rightarrow> bool" where
  "valid_name n \<longleftrightarrow> n \<noteq> [] \<and> list_all (\<lambda>c. c \<notin> set forbidden_chars) n"

text \<open>
  Modelled from the spec: the user lookup \<^verbatim>\<open>UserDBQuery().read\<close> (specification 6:
  \<^verbatim>\<open>read(userId|userEmail) -> {id, isAdmin} | absent\<close>).
\<close>

definition UserDBQuery_read_id :: "state \<Rightarrow> int \<Rightarrow> user option" where
  "UserDBQuery_read_id s user_id = find (\<lambda>u. usr_id u = user_id) (users s)"

definition UserDBQuery_read_email :: "state \<Rightarrow> string \<Rightarrow> user option" where
  "UserDBQuery_read_email s user_email = find (\<lambda>u. usr_email u = user_email) (users s)"

text \<open>
  Modelled from the spec: the access policy built from the predicate objects of
  core/permissions.py and architecture/query/permission.py (specification 4.5): an operation
  is permitted iff \<open>Authenticated AND (IsAdmin OR (NOT IsAdmin AND IsOwner))\<close>. What makes
  an issue kind count as authenticated is decided by the absent class
  \<^verbatim>\<open>PermissionIssueLoginChecker\<close> and is a parameter here.
\<close>

definition AdminOnly :: "bool \<Rightarrow> bool" where
  "AdminOnly is_admin = is_admin"

definition OnlyMine :: "int \<Rightarrow> int \<Rightarrow> bool" where
  "OnlyMine operator_id user_id \<longleftrightarrow> operator_id = user_id"

definition composite_permission :: "(string \<Rightarrow> bool) \<Rightarrow> string \<Rightarrow> user \<Rightarrow> int \<Rightarrow> bool" where
  "composite_permission LoginedOnly issue operator user_id \<longleftrightarrow>
     LoginedOnly issue \<and>
     (AdminOnly (usr_is_admin operator) \<or>
      (\<not> AdminOnly (usr_is_admin operator) \<and> OnlyMine (usr_id operator) user_id))"

subsection \<open>The physical store\<close>

text \<open>
  Modelled from the spec: \<^verbatim>\<open>DataStorageQuery\<close> of
  apps/storage/utils/queries/data_storage_query.py, after specification 4.3.
  \<^item> \<open>read(path, kind)\<close> is an existence probe for an object of the given kind;
  \<^item> \<open>create(path, kind, content?)\<close> makes the directory or writes the bytes and, for a
    file, returns the byte size;
  \<^item> \<open>destroy(path)\<close> deletes the object and everything below it and tolerates an absent
    path;
  \<^item> \<open>update(oldPath, newName)\<close> renames the leaf in place, returns nothing when the source
    is absent and fails when the destination is occupied.
\<close>

definition under_path :: "string \<Rightarrow> string \<Rightarrow> bool" where
  "under_path root p \<longleftrightarrow> p = root \<or> prefix (root @ ''/'') p"

definition DataStorageQuery_read :: "state \<Rightarrow> string \<Rightarrow> bool \<Rightarrow> bool" where
  "DataStorageQuery_read s root is_dir =
     (case map_of (storage s) root of
        None \<Rightarrow> False
      | Some PDir \<Rightarrow> is_dir
      | Some (PFile c) \<Rightarrow> \<not> is_dir)"

definition DataStorageQuery_destroy :: "string \<Rightarrow> state \<Rightarrow> state" where
  "DataStorageQuery_destroy root s =
     s\<lparr>storage := filter (\<lambda>(p, obj). \<not> under_path root p) (storage s)\<rparr>"

definition DataStorageQuery_create_dir :: "string \<Rightarrow> state \<Rightarrow> state" where
  "DataStorageQuery_create_dir root s =
     s\<lparr>storage := (root, PDir) # filter (\<lambda>(p, obj). p \<noteq> root) (storage s)\<rparr>"

definition DataStorageQuery_create_file :: "string \<Rightarrow> upload_file \<Rightarrow> state \<Rightarrow> int \<times> state" where
  "DataStorageQuery_create_file root file s =
     (int (length (file_content file)),
      s\<lparr>storage := (root, PFile (file_content file)) # filter (\<lambda>(p, obj). p \<noteq> root) (storage s)\<rparr>)"

text \<open>The directory part of a path: everything up to and including the last \<open>/\<close>.\<close>

definition dirname_of :: "string \<Rightarrow> string" where
  "dirname_of p = rev (dropWhile (\<lambda>c. c \<noteq> CHR ''/'') (rev p))"

definition DataStorageQuery_update :: "string \<Rightarrow> string \<Rightarrow> state \<Rightarrow> (error + string option) \<times> state" where
  "DataStorageQuery_update root new_name s =
     (let new_root = dirname_of root @ new_name in
      if map_of (storage s) root = None then (Inr None, s)
      else if map_of (storage s) new_root \<noteq> None then (Inl OSError, s)
      else (Inr (Some new_root),
            s\<lparr>storage :=
                 map (\<lambda>(p, obj). (if under_path root p then new_root @ drop (length root) p else p, obj))
                     (storage s)\<rparr>))"

text \<open>\<^verbatim>\<open>os.path.getsize\<close> and \<^verbatim>\<open>len(os.listdir(...))\<close>, which the source calls directly.\<close>

definition os_path_getsize :: "state \<Rightarrow> string \<Rightarrow> error + int" where
  "os_path_getsize s p =
     (case map_of (storage s) p of
        None \<Rightarrow> Inl OSError
      | Some PDir \<Rightarrow> Inr 0
      | Some (PFile c) \<Rightarrow> Inr (int (length c)))"

definition os_listdir_len :: "state \<Rightarrow> string \<Rightarrow> int" where
  "os_listdir_len s p =
     int (length (filter (\<lambda>(q, obj). prefix (p @ ''/'') q \<and> CHR ''/'' \<notin> set (drop (length p + 1) q))
                         (storage s)))"

section \<open>The metadata store (apps/storage/utils/queries/data_db_query.py)\<close>

text \<open>
  Each call of the metadata store opens a session, runs at most one writing transaction and
  closes the session. The parameter \<open>commit_ok\<close> is the answer of the relational store to
  that transaction: when it is \<open>False\<close>, \<^verbatim>\<open>session.commit()\<close> raises, the session is
  rolled back (the tables are as before) and the exception is raised again. The rows of the
  tag tables, which the destroyer also deletes, are not part of the state.
\<close>

definition DataDBQueryCreator :: "bool \<Rightarrow> datainfo_create \<Rightarrow> state \<Rightarrow> (error + datainfo) \<times> state" where
  "DataDBQueryCreator commit_ok data_format s =
     (let data = \<lparr>info_id = autoincrement s,
                   info_root = fmt_root data_format,
                   info_name = fmt_name data_format,
                   info_is_dir = fmt_is_dir data_format,
                   info_size = fmt_size data_format,
                   info_user_id = fmt_user_id data_format\<rparr>
      in case scalar (filter (\<lambda>d. info_name d = info_name data \<and> info_root d = info_root data \<and>
                                   info_user_id d = info_user_id data \<and>
                                   info_is_dir d = info_is_dir data) (datainfos s)) of
           Inl e \<Rightarrow> (Inl e, s)
         | Inr (Some found) \<Rightarrow> (Inl DataAlreadyExists, s)
         | Inr None \<Rightarrow>
             if commit_ok
             then (Inr data, s\<lparr>datainfos := datainfos s @ [data],
                                autoincrement := autoincrement s + 1\<rparr>)
             else (Inl CommitError, s))"

definition DataDBQueryDestroyer :: "bool \<Rightarrow> int \<Rightarrow> state \<Rightarrow> (error + string \<times> string) \<times> state" where
  "DataDBQueryDestroyer commit_ok data_id s =
     (case scalar (filter (\<lambda>d. info_id d = data_id) (datainfos s)) of
        Inl e \<Rightarrow> (Inl e, s)
      | Inr None \<Rightarrow> (Inl AttributeError, s)
      | Inr (Some data) \<Rightarrow>
          (let rows1 =
                 (if info_is_dir data
                  then filter (\<lambda>d. \<not> (info_user_id d = info_user_id data \<and>
                                        sql_startswith (info_root d)
                                          (info_root data @ info_name data @ ''/'')))
                              (datainfos s)
                  else datainfos s);
               rows2 = filter (\<lambda>d. info_id d \<noteq> data_id) rows1
           in if commit_ok
              then (Inr (info_root data, info_name data), s\<lparr>datainfos := rows2\<rparr>)
              else (Inl CommitError, s)))"

text \<open>
  The reader. \<^verbatim>\<open>if data_id:\<close>, \<^verbatim>\<open>elif full_root:\<close>, \<^verbatim>\<open>if user_id:\<close> and
  \<^verbatim>\<open>if is_dir:\<close> are Python truth tests: \<^verbatim>\<open>None\<close>, \<open>0\<close> and \<^verbatim>\<open>False\<close> all fail them.
  In both branches the source evaluates \<^verbatim>\<open>query.filter(DataInfo.user_id == user_id)\<close> as
  a statement; \<^verbatim>\<open>Query.filter\<close> returns a new query and leaves \<^verbatim>\<open>query\<close> as it was, so
  the value bound to \<open>dropped\<close> below never reaches \<^verbatim>\<open>query.scalar()\<close>.
\<close>

definition truthy_int :: "int option \<Rightarrow> bool" where
  "truthy_int x = (case x of None \<Rightarrow> False | Some i \<Rightarrow> i \<noteq> 0)"

definition DataDBQueryReader ::
  "state \<Rightarrow> int option \<Rightarrow> bool option \<Rightarrow> int option \<Rightarrow> (string \<times> string) option
     \<Rightarrow> error + datainfo option" where
  "DataDBQueryReader s user_id is_dir data_id full_root =
     (case (if truthy_int data_id
            then (let query = filter (\<lambda>d. Some (info_id d) = data_id) (datainfos s);
                      dropped = (if truthy_int user_id
                                 then filter (\<lambda>d. Some (info_user_id d) = user_id) query
                                 else query)
                  in scalar query)
            else (case full_root of
                    Some (r, n) \<Rightarrow>
                      (let query = filter (\<lambda>d. info_root d = r \<and> info_name d = n) (datainfos s);
                           dropped = (if truthy_int user_id
                                      then filter (\<lambda>d. Some (info_user_id d) = user_id) query
                                      else query)
                       in scalar query)
                  | None \<Rightarrow> Inr None)) of
        Inl e \<Rightarrow> Inl e
      | Inr data \<Rightarrow>
          (if is_dir = Some True
           then (case data of
                   Some d \<Rightarrow> if Some (info_is_dir d) \<noteq> is_dir then Inr None else Inr data
                 | None \<Rightarrow> Inr data)
           else Inr data))"

definition DataDBQueryUpdator :: "bool \<Rightarrow> string \<Rightarrow> int \<Rightarrow> int \<Rightarrow> state \<Rightarrow> (error + datainfo) \<times> state" where
  "DataDBQueryUpdator commit_ok new_name user_id data_id s =
     (case scalar (filter (\<lambda>d. info_user_id d = user_id \<and> info_id d = data_id) (datainfos s)) of
        Inl e \<Rightarrow> (Inl e, s)
      | Inr None \<Rightarrow> (Inl DataNotFound, s)
      | Inr (Some data_info) \<Rightarrow>
          (let prev_name = info_name data_info;
               rows1 = map (\<lambda>d. if info_id d = info_id data_info then d\<lparr>info_name := new_name\<rparr> else d)
                           (datainfos s);
               rows2 =
                 (if info_is_dir data_info
                  then (let dst_root = info_root data_info @ prev_name @ ''/'';
                            src_root = info_root data_info @ new_name @ ''/''
                        in map (\<lambda>d. if info_user_id d = user_id \<and> sql_startswith (info_root d) dst_root
                                     then d\<lparr>info_root := sql_replace (info_root d) dst_root src_root\<rparr>
                                     else d) rows1)
                  else rows1)
           in if commit_ok
              then (case find (\<lambda>d. info_id d = info_id data_info) rows2 of
                      Some refreshed \<Rightarrow> (Inr refreshed, s\<lparr>datainfos := rows2\<rparr>)
                    | None \<Rightarrow> (Inr (data_info\<lparr>info_name := new_name\<rparr>), s\<lparr>datainfos := rows2\<rparr>))
              else (Inl CommitError, s)))"

definition update_file_automatic :: "bool \<Rightarrow> int \<Rightarrow> datainfo_create \<Rightarrow> state \<Rightarrow> (error + datainfo) \<times> state" where
  "update_file_automatic commit_ok data_id data_format s =
     (case scalar (filter (\<lambda>d. info_id d = data_id) (datainfos s)) of
        Inl e \<Rightarrow> (Inl e, s)
      | Inr None \<Rightarrow> (Inl DataNotFound, s)
      | Inr (Some data_info) \<Rightarrow>
          if commit_ok
          then (Inr (data_info\<lparr>info_size := fmt_size data_format\<rparr>),
                s\<lparr>datainfos :=
                     map (\<lambda>d. if info_id d = data_id then d\<lparr>info_size := fmt_size data_format\<rparr> else d)
                         (datainfos s)\<rparr>)
          else (Inl CommitError, s))"

definition sync_file_size :: "bool \<Rightarrow> int \<Rightarrow> string \<Rightarrow> state \<Rightarrow> (error + datainfo) \<times> state" where
  "sync_file_size commit_ok data_id full_root s =
     (case scalar (filter (\<lambda>d. info_id d = data_id) (datainfos s)) of
        Inl e \<Rightarrow> (Inl e, s)
      | Inr None \<Rightarrow> (Inl DataNotFound, s)
      | Inr (Some data_info) \<Rightarrow>
          (case os_path_getsize s full_root of
             Inl e \<Rightarrow> (Inl e, s)
           | Inr real_size \<Rightarrow>
               if real_size \<noteq> info_size data_info
               then (if commit_ok
                     then (Inr (data_info\<lparr>info_size := real_size\<rparr>),
                           s\<lparr>datainfos :=
                                map (\<lambda>d. if info_id d = data_id then d\<lparr>info_size := real_size\<rparr> else d)
                                    (datainfos s)\<rparr>)
                     else (Inl CommitError, s))
               else (Inr data_info, s)))"

section \<open>The storage managers (apps/storage/utils/managers.py)\<close>

text \<open>
  The two create methods open with the same lines: the parent directory id \<open>0\<close> is the
  root \<open>/\<close>, any other id is looked up as a directory of the owner.
\<close>

definition resolve_dir_root :: "state \<Rightarrow> int \<Rightarrow> int \<Rightarrow> error + string" where
  "resolve_dir_root s user_id root_id =
     (if root_id \<noteq> 0
      then (case DataDBQueryReader s (Some user_id) (Some True) (Some root_id) None of
              Inl e \<Rightarrow> Inl e
            | Inr None \<Rightarrow> Inl DataNotFound
            | Inr (Some directory_info) \<Rightarrow>
                Inr (info_root directory_info @ info_name directory_info @ ''/''))
      else Inr ''/'')"

text \<open>Both create methods delete whatever the physical store holds at the target path.\<close>

definition clear_storage_slot :: "string \<Rightarrow> state \<Rightarrow> state" where
  "clear_storage_slot root s =
     (if DataStorageQuery_read s root True \<or> DataStorageQuery_read s root False
      then DataStorageQuery_destroy root s
      else s)"

definition DataFileCRUDManager_create ::
  "bool \<Rightarrow> int \<Rightarrow> int \<Rightarrow> upload_file \<Rightarrow> state \<Rightarrow> (error + datainfo) \<times> state" where
  "DataFileCRUDManager_create commit_ok root_id user_id file s =
     (case UserDBQuery_read_id s user_id of
        None \<Rightarrow> (Inl UserNotFound, s)
      | Some user \<Rightarrow>
     (case resolve_dir_root s user_id root_id of
        Inl e \<Rightarrow> (Inl e, s)
      | Inr dir_root \<Rightarrow>
     (let filename = last (split_str CHR ''/'' (file_filename file));
          file_root = raw_root_of s user_id dir_root filename
      in case DataDBQueryReader s (Some user_id) None None (Some (dir_root, filename)) of
           Inl e \<Rightarrow> (Inl e, s)
         | Inr db_already_info \<Rightarrow>
     (let db_already_id = (case db_already_info of Some d \<Rightarrow> info_id d | None \<Rightarrow> 0)
      in if db_already_id \<noteq> 0 \<and> (case db_already_info of Some d \<Rightarrow> info_is_dir d | None \<Rightarrow> False)
         then (Inl DataAlreadyExists, s)
         else
     (let s1 = clear_storage_slot file_root s
      in if \<not> valid_name filename then (Inl ValidationError, s1)
         else
     (let input_format = \<lparr>fmt_name = filename, fmt_root = dir_root, fmt_user_id = user_id,
                           fmt_is_dir = False, fmt_size = 0\<rparr>;
          (data_size, s2) = DataStorageQuery_create_file file_root file s1;
          input_format = input_format\<lparr>fmt_size := data_size\<rparr>
      in case (if db_already_id \<noteq> 0
               then update_file_automatic commit_ok db_already_id input_format s2
               else DataDBQueryCreator commit_ok input_format s2) of
           (Inl e, s3) \<Rightarrow> (Inl e, DataStorageQuery_destroy file_root s3)
         | (Inr data_info, s3) \<Rightarrow> (Inr data_info, s3)))))))"

definition DataDirectoryCRUDManager_create ::
  "bool \<Rightarrow> int \<Rightarrow> int \<Rightarrow> string \<Rightarrow> state \<Rightarrow> (error + datainfo) \<times> state" where
  "DataDirectoryCRUDManager_create commit_ok root_id user_id dirname s =
     (case UserDBQuery_read_id s user_id of
        None \<Rightarrow> (Inl UserNotFound, s)
      | Some user \<Rightarrow>
     (case resolve_dir_root s user_id root_id of
        Inl e \<Rightarrow> (Inl e, s)
      | Inr dir_root \<Rightarrow>
     (let root = raw_root_of s user_id dir_root dirname
      in case DataDBQueryReader s (Some user_id) None None (Some (dir_root, dirname)) of
           Inl e \<Rightarrow> (Inl e, s)
         | Inr db_already_info \<Rightarrow>
     (let db_already_id = (case db_already_info of Some d \<Rightarrow> info_id d | None \<Rightarrow> 0)
      in if db_already_id \<noteq> 0 then (Inl DataAlreadyExists, s)
         else
     (let s1 = clear_storage_slot root s
      in if \<not> valid_name dirname then (Inl ValidationError, s1)
         else
     (let input_format = \<lparr>fmt_name = dirname, fmt_root = dir_root, fmt_user_id = user_id,
                           fmt_is_dir = True, fmt_size = 0\<rparr>;
          s2 = DataStorageQuery_create_dir root s1
      in case DataDBQueryCreator commit_ok input_format s2 of
           (Inl e, s3) \<Rightarrow> (Inl e, DataStorageQuery_destroy root s3)
         | (Inr info, s3) \<Rightarrow> (Inr info, s3)))))))"

text \<open>
  The two update methods differ in one argument: the file manager reads the row with
  \<^verbatim>\<open>is_dir=False\<close>, the directory manager without a kind.
\<close>

definition CRUDManager_update ::
  "bool option \<Rightarrow> bool \<Rightarrow> int \<Rightarrow> int \<Rightarrow> string \<Rightarrow> state \<Rightarrow> (error + datainfo) \<times> state" where
  "CRUDManager_update kind commit_ok user_id data_id new_name s =
     (case UserDBQuery_read_id s user_id of
        None \<Rightarrow> (Inl UserNotFound, s)
      | Some user \<Rightarrow>
     (case DataDBQueryReader s (Some user_id) kind (Some data_id) None of
        Inl e \<Rightarrow> (Inl e, s)
      | Inr None \<Rightarrow> (Inl DataNotFound, s)
      | Inr (Some data) \<Rightarrow>
          if \<not> valid_name new_name then (Inl ValidationError, s)
          else
     (let prev_name = info_name data;
          directory_root = raw_root_of s user_id (info_root data) [];
          raw_root = directory_root @ prev_name
      in case DataStorageQuery_update raw_root new_name s of
           (Inl e, s1) \<Rightarrow> (Inl DataAlreadyExists, s1)
         | (Inr None, s1) \<Rightarrow>
             (case DataDBQueryDestroyer commit_ok data_id s1 of
                (Inl e, s2) \<Rightarrow> (Inl e, s2)
              | (Inr gone, s2) \<Rightarrow> (Inl DataNotFound, s2))
         | (Inr (Some new_root), s1) \<Rightarrow>
             (case DataDBQueryUpdator commit_ok new_name user_id (info_id data) s1 of
                (Inl e, s2) \<Rightarrow>
                  (case DataStorageQuery_update (directory_root @ new_name) prev_name s2 of
                     (Inl e', s3) \<Rightarrow> (Inl e', s3)
                   | (Inr back, s3) \<Rightarrow> (Inl e, s3))
              | (Inr res, s2) \<Rightarrow> (Inr res, s2)))))"

definition DataFileCRUDManager_update ::
  "bool \<Rightarrow> int \<Rightarrow> int \<Rightarrow> string \<Rightarrow> state \<Rightarrow> (error + datainfo) \<times> state" where
  "DataFileCRUDManager_update = CRUDManager_update (Some False)"

definition DataDirectoryCRUDManager_update ::
  "bool \<Rightarrow> int \<Rightarrow> int \<Rightarrow> string \<Rightarrow> state \<Rightarrow> (error + datainfo) \<times> state" where
  "DataDirectoryCRUDManager_update = CRUDManager_update None"

text \<open>The destroy methods of the two managers are the same three lines.\<close>

definition CRUDManager_destroy :: "bool \<Rightarrow> int \<Rightarrow> int \<Rightarrow> state \<Rightarrow> (error + unit) \<times> state" where
  "CRUDManager_destroy commit_ok user_id data_id s =
     (case DataDBQueryDestroyer commit_ok data_id s of
        (Inl e, s1) \<Rightarrow> (Inl e, s1)
      | (Inr (root, name), s1) \<Rightarrow>
          (Inr (), DataStorageQuery_destroy (raw_root_of s1 user_id root name) s1))"

subsection \<open>The front-end manager \<^verbatim>\<open>DataManager\<close>\<close>

text \<open>
  Every method of \<^verbatim>\<open>DataManager\<close> starts by decoding the token, looking the operator up
  by e-mail and evaluating the composite permission. The token decoder of
  core/token_generators.py is a parameter: it returns the e-mail and the issue kind of a
  token, or raises.
\<close>

definition check_permission ::
  "(string \<Rightarrow> error + string \<times> string) \<Rightarrow> (string \<Rightarrow> bool) \<Rightarrow> state \<Rightarrow> string \<Rightarrow> int
     \<Rightarrow> error + user" where
  "check_permission decode_token LoginedOnly s token user_id =
     (case decode_token token of
        Inl e \<Rightarrow> Inl e
      | Inr (op_email, issue) \<Rightarrow>
          (case UserDBQuery_read_email s op_email of
             None \<Rightarrow> Inl PermissionError
           | Some operator \<Rightarrow>
               if \<not> composite_permission LoginedOnly issue operator user_id
               then Inl PermissionError
               else Inr operator))"

text \<open>
  \<^verbatim>\<open>if req_file:\<close> holds for every \<^verbatim>\<open>UploadFile\<close> object, \<^verbatim>\<open>elif req_dirname:\<close> fails for
  \<^verbatim>\<open>None\<close> and for the empty string; when neither holds the method falls off its end and
  returns \<^verbatim>\<open>None\<close>.
\<close>

definition DataManager_create ::
  "(string \<Rightarrow> error + string \<times> string) \<Rightarrow> (string \<Rightarrow> bool) \<Rightarrow> bool \<Rightarrow> string \<Rightarrow> int \<Rightarrow> int
     \<Rightarrow> upload_file option \<Rightarrow> string option \<Rightarrow> state \<Rightarrow> (error + datainfo option) \<times> state" where
  "DataManager_create decode_token LoginedOnly commit_ok token user_id data_id req_file req_dirname s =
     (case check_permission decode_token LoginedOnly s token user_id of
        Inl e \<Rightarrow> (Inl e, s)
      | Inr operator \<Rightarrow>
          (case req_file of
             Some file \<Rightarrow>
               (case DataFileCRUDManager_create commit_ok data_id user_id file s of
                  (Inl e, s') \<Rightarrow> (Inl e, s')
                | (Inr info, s') \<Rightarrow> (Inr (Some info), s'))
           | None \<Rightarrow>
               (case req_dirname of
                  None \<Rightarrow> (Inr None, s)
                | Some dirname \<Rightarrow>
                    if dirname = [] then (Inr None, s)
                    else (case DataDirectoryCRUDManager_create commit_ok data_id user_id dirname s of
                            (Inl e, s') \<Rightarrow> (Inl e, s')
                          | (Inr info, s') \<Rightarrow> (Inr (Some info), s')))))"

text \<open>
  What a read answers: the \<^verbatim>\<open>info\<close> dictionary and, in download mode, the \<^verbatim>\<open>file\<close>
  entry: the path of the file itself, or a zip archive built from the directory (the
  archive is written outside the storage tree under a name taken from the clock, which is
  not modelled).
\<close>

datatype download = FilePath string | Archive string

record read_result =
  res_root :: string
  res_is_dir :: bool
  res_name :: string
  res_size :: int
  res_file :: "download option"

definition DataManager_read ::
  "(string \<Rightarrow> error + string \<times> string) \<Rightarrow> (string \<Rightarrow> bool) \<Rightarrow> bool \<Rightarrow> string \<Rightarrow> int \<Rightarrow> int
     \<Rightarrow> string \<Rightarrow> state \<Rightarrow> (error + read_result) \<times> state" where
  "DataManager_read decode_token LoginedOnly commit_ok token user_id data_id mode s =
     (case check_permission decode_token LoginedOnly s token user_id of
        Inl e \<Rightarrow> (Inl e, s)
      | Inr operator \<Rightarrow>
     (case UserDBQuery_read_id s user_id of
        None \<Rightarrow> (Inl UserNotFound, s)
      | Some user \<Rightarrow>
     (case DataDBQueryReader s (Some user_id) None (Some data_id) None of
        Inl e \<Rightarrow> (Inl e, s)
      | Inr None \<Rightarrow> (Inl DataNotFound, s)
      | Inr (Some data_info) \<Rightarrow>
     (let raw_root = raw_root_of s user_id (info_root data_info) (info_name data_info)
      in if \<not> DataStorageQuery_read s raw_root (info_is_dir data_info)
         then (case DataDBQueryDestroyer commit_ok (info_id data_info) s of
                 (Inl e, s1) \<Rightarrow> (Inl e, s1)
               | (Inr gone, s1) \<Rightarrow> (Inl DataNotFound, s1))
         else
     (case (if \<not> info_is_dir data_info
            then sync_file_size commit_ok data_id raw_root s
            else (Inr data_info, s)) of
        (Inl e, s1) \<Rightarrow> (Inl e, s1)
      | (Inr data_info, s1) \<Rightarrow>
          (Inr \<lparr>res_root = info_root data_info,
                res_is_dir = info_is_dir data_info,
                res_name = info_name data_info,
                res_size = (if info_is_dir data_info then os_listdir_len s1 raw_root
                            else info_size data_info),
                res_file = (if mode = ''download''
                            then (if \<not> info_is_dir data_info then Some (FilePath raw_root)
                                  else Some (Archive raw_root))
                            else None)\<rparr>, s1))))))"

definition DataManager_update ::
  "(string \<Rightarrow> error + string \<times> string) \<Rightarrow> (string \<Rightarrow> bool) \<Rightarrow> bool \<Rightarrow> string \<Rightarrow> int \<Rightarrow> int
     \<Rightarrow> string \<Rightarrow> state \<Rightarrow> (error + datainfo) \<times> state" where
  "DataManager_update decode_token LoginedOnly commit_ok token user_id data_id new_name s =
     (case check_permission decode_token LoginedOnly s token user_id of
        Inl e \<Rightarrow> (Inl e, s)
      | Inr operator \<Rightarrow>
          (case DataDBQueryReader s (Some user_id) None (Some data_id) None of
             Inl e \<Rightarrow> (Inl e, s)
           | Inr None \<Rightarrow> (Inl DataNotFound, s)
           | Inr (Some target) \<Rightarrow>
               if info_is_dir target
               then DataDirectoryCRUDManager_update commit_ok user_id data_id new_name s
               else DataFileCRUDManager_update commit_ok user_id data_id new_name s))"

definition DataManager_destroy ::
  "(string \<Rightarrow> error + string \<times> string) \<Rightarrow> (string \<Rightarrow> bool) \<Rightarrow> bool \<Rightarrow> string \<Rightarrow> int \<Rightarrow> int
     \<Rightarrow> state \<Rightarrow> (error + unit) \<times> state" where
  "DataManager_destroy decode_token LoginedOnly commit_ok token user_id data_id s =
     (case check_permission decode_token LoginedOnly s token user_id of
        Inl e \<Rightarrow> (Inl e, s)
      | Inr operator \<Rightarrow>
          (case DataDBQueryReader s (Some user_id) None (Some data_id) None of
             Inl e \<Rightarrow> (Inl e, s)
           | Inr None \<Rightarrow> (Inl DataNotFound, s)
           | Inr (Some target) \<Rightarrow> CRUDManager_destroy commit_ok user_id data_id s))"

section \<open>Example states\<close>

text \<open>
  Two ordinary users, a token decoder that knows one login token for each of them, and the
  reading of \<^verbatim>\<open>PermissionIssueLoginChecker\<close> that accepts the issue kind \<open>login\<close>.
\<close>

definition alice :: user where
  "alice = \<lparr>usr_id = 1, usr_email = ''alice@example.com'', usr_is_admin = False\<rparr>"

definition bob :: user where
  "bob = \<lparr>usr_id = 2, usr_email = ''bob@example.com'', usr_is_admin = False\<rparr>"

definition ex_decode_token :: "string \<Rightarrow> error + string \<times> string" where
  "ex_decode_token token =
     (if token = ''alice-token'' then Inr (''alice@example.com'', ''login'')
      else if token = ''bob-token'' then Inr (''bob@example.com'', ''login'')
      else Inl InvalidCredential)"

definition ex_LoginedOnly :: "string \<Rightarrow> bool" where
  "ex_LoginedOnly issue \<longleftrightarrow> issue = ''login''"

text \<open>Bob owns the directory \<open>/mydir\<close>; Alice owns nothing.\<close>

definition bobs_mydir :: datainfo where
  "bobs_mydir = \<lparr>info_id = 1, info_root = ''/'', info_name = ''mydir'', info_is_dir = True,
                  info_size = 0, info_user_id = 2\<rparr>"

definition two_owner_state :: state where
  "two_owner_state =
     \<lparr>users = [alice, bob],
      datainfos = [bobs_mydir],
      autoincrement = 2,
      storage = [(''/srv/storage/2/root/mydir'', PDir)],
      server_storage = ''/srv''\<rparr>"

text \<open>Alice's tree \<open>/a/x/a/f.txt\<close>: the directory name \<open>a\<close> occurs twice on one path.\<close>

definition nested_state :: state where
  "nested_state =
     \<lparr>users = [alice],
      datainfos =
        [\<lparr>info_id = 1, info_root = ''/'', info_name = ''a'', info_is_dir = True,
           info_size = 0, info_user_id = 1\<rparr>,
         \<lparr>info_id = 2, info_root = ''/a/'', info_name = ''x'', info_is_dir = True,
           info_size = 0, info_user_id = 1\<rparr>,
         \<lparr>info_id = 3, info_root = ''/a/x/'', info_name = ''a'', info_is_dir = True,
           info_size = 0, info_user_id = 1\<rparr>,
         \<lparr>info_id = 4, info_root = ''/a/x/a/'', info_name = ''f.txt'', info_is_dir = False,
           info_size = 5, info_user_id = 1\<rparr>],
      autoincrement = 5,
      storage =
        [(''/srv/storage/1/root/a'', PDir), (''/srv/storage/1/root/a/x'', PDir),
         (''/srv/storage/1/root/a/x/a'', PDir),
         (''/srv/storage/1/root/a/x/a/f.txt'', PFile ''hello'')],
      server_storage = ''/srv''\<rparr>"

text \<open>
  Alice's file \<open>/hi.txt\<close>, recorded with a size that is not the size of its bytes: once
  with the file removed from the disk behind the service's back, once with the twelve
  bytes of the file in place.
\<close>

definition alices_hi :: datainfo where
  "alices_hi = \<lparr>info_id = 1, info_root = ''/'', info_name = ''hi.txt'', info_is_dir = False,
                 info_size = 9999, info_user_id = 1\<rparr>"

definition orphan_state :: state where
  "orphan_state =
     \<lparr>users = [alice], datainfos = [alices_hi], autoincrement = 2, storage = [],
      server_storage = ''/srv''\<rparr>"

definition drift_state :: state where
  "drift_state =
     \<lparr>users = [alice], datainfos = [alices_hi], autoincrement = 2,
      storage = [(''/srv/storage/1/root/hi.txt'', PFile ''hello world!'')],
      server_storage = ''/srv''\<rparr>"

text \<open>
  Bob's file \<open>/hi.txt\<close> of five bytes, recorded under id 1, while Alice has no record
  but holds a file of twelve bytes at the same relative path in her own tree (what an
  upload of \<open>hi.txt\<close> by Alice leaves behind when Bob's record occupies the name): once
  with Bob's file removed from the disk, once with both files in place.
\<close>

definition bobs_hi :: datainfo where
  "bobs_hi = \<lparr>info_id = 1, info_root = ''/'', info_name = ''hi.txt'', info_is_dir = False,
               info_size = 5, info_user_id = 2\<rparr>"

definition foreign_orphan_state :: state where
  "foreign_orphan_state =
     \<lparr>users = [alice, bob], datainfos = [bobs_hi], autoincrement = 2,
      storage = [(''/srv/storage/1/root/hi.txt'', PFile ''hello world!'')],
      server_storage = ''/srv''\<rparr>"

definition foreign_file_state :: state where
  "foreign_file_state =
     \<lparr>users = [alice, bob], datainfos = [bobs_hi], autoincrement = 2,
      storage = [(''/srv/storage/1/root/hi.txt'', PFile ''hello world!''),
                 (''/srv/storage/2/root/hi.txt'', PFile ''hello'')],
      server_storage = ''/srv''\<rparr>"

text \<open>
  Alice and Bob each hold a file \<open>/hi.txt\<close>. No upload produces this table, since an upload
  finds the other owner's record; it is reached from the empty store when Alice uploads
  \<open>hi.txt\<close>, Bob uploads \<open>x.txt\<close> and renames it to \<open>hi.txt\<close>.
\<close>

definition fresh_state :: state where
  "fresh_state =
     \<lparr>users = [alice, bob], datainfos = [], autoincrement = 1, storage = [],
      server_storage = ''/srv''\<rparr>"

definition shared_name_state :: state where
  "shared_name_state =
     \<lparr>users = [alice, bob],
      datainfos =
        [\<lparr>info_id = 1, info_root = ''/'', info_name = ''hi.txt'', info_is_dir = False,
           info_size = 12, info_user_id = 1\<rparr>,
         \<lparr>info_id = 2, info_root = ''/'', info_name = ''hi.txt'', info_is_dir = False,
           info_size = 5, info_user_id = 2\<rparr>],
      autoincrement = 3,
      storage = [(''/srv/storage/2/root/hi.txt'', PFile ''hello''),
                 (''/srv/storage/1/root/hi.txt'', PFile ''hello world!'')],
      server_storage = ''/srv''\<rparr>"

section \<open>Properties\<close>

lemmas ex_defs = alice_def bob_def ex_decode_token_def ex_LoginedOnly_def bobs_mydir_def
  two_owner_state_def nested_state_def alices_hi_def orphan_state_def drift_state_def
  bobs_hi_def foreign_orphan_state_def foreign_file_state_def fresh_state_def shared_name_state_def

lemmas eval_defs = UserDBQuery_read_id_def UserDBQuery_read_email_def resolve_dir_root_def
  DataDBQueryReader_def truthy_int_def scalar_def raw_root_of_def str_int_def str_nat.simps
  digit_char_def clear_storage_slot_def DataStorageQuery_read_def DataStorageQuery_destroy_def
  valid_name_def forbidden_chars_def DataStorageQuery_create_dir_def DataStorageQuery_create_file_def
  DataDBQueryCreator_def under_path_def composite_permission_def AdminOnly_def OnlyMine_def
  check_permission_def update_file_automatic_def sync_file_size_def os_path_getsize_def
  DataDBQueryDestroyer_def DataDBQueryUpdator_def sql_startswith_def Let_def

subsection \<open>Prefix tests of the metadata store\<close>

text \<open>
  For a directory path without the wildcards \<open>%\<close> and \<open>_\<close>, the test
  \<^verbatim>\<open>root.startswith(path)\<close> of the cascades is the prefix test it is meant to be.
\<close>

lemma like_match_percent: "like_match ''%'' s"
  by (induction s) auto

lemma like_match_literal:
  "CHR ''%'' \<notin> set x \<Longrightarrow> CHR ''_'' \<notin> set x \<Longrightarrow> like_match (x @ ''%'') s = prefix x s"
proof (induction x arbitrary: s)
  case Nil
  then show ?case by (simp add: like_match_percent)
next
  case (Cons a x)
  then show ?case by (cases s) auto
qed

lemma sql_startswith_literal:
  "CHR ''%'' \<notin> set x \<Longrightarrow> CHR ''_'' \<notin> set x \<Longrightarrow> sql_startswith column x = prefix x column"
  by (simp add: sql_startswith_def like_match_literal)

subsection \<open>The kind filter of the reader\<close>

text \<open>
  The reader tests \<^verbatim>\<open>if is_dir:\<close>, so a call with \<^verbatim>\<open>is_dir=False\<close> is answered like a
  call without a kind, while \<^verbatim>\<open>is_dir=True\<close> does hide a file.
\<close>

lemma reader_is_dir_False_is_unfiltered:
  "DataDBQueryReader s user_id (Some False) data_id full_root =
   DataDBQueryReader s user_id None data_id full_root"
  by (simp add: DataDBQueryReader_def split: sum.splits)

lemma reader_is_dir_True_filters:
  "DataDBQueryReader s user_id (Some True) data_id full_root = Inr (Some d) \<Longrightarrow> info_is_dir d"
  by (auto simp: DataDBQueryReader_def split: if_splits sum.splits option.splits)

text \<open>
  Claim C8: a read with an \<^verbatim>\<open>is_directory\<close> filter, whether the filter is true or false,
  reports a record of the other kind as not found. The code does not do so for the
  filter value false: asked for the file with id 1, the reader returns the directory with id 1.
\<close>

theorem reader_is_dir_False_returns_directory:
  "DataDBQueryReader two_owner_state (Some 2) (Some False) (Some 1) None = Inr (Some bobs_mydir)"
  by (simp add: ex_defs eval_defs)

subsection \<open>The owner of a parent directory\<close>

text \<open>
  Claim C7: a create under a non-zero parent id fails with \<open>NotFound\<close> unless the id is a
  directory record of the requested owner; a directory of another owner does not resolve.
  In the code the owner filter of the reader is built and dropped, so Alice (owner 1)
  creates \<open>sub\<close> under Bob's directory 1: the create succeeds and stores a record of
  Alice with the parent path \<open>/mydir/\<close>.
\<close>

theorem create_under_foreign_directory:
  "DataDirectoryCRUDManager_create True 1 1 ''sub'' two_owner_state =
     (Inr \<lparr>info_id = 2, info_root = ''/mydir/'', info_name = ''sub'', info_is_dir = True,
            info_size = 0, info_user_id = 1\<rparr>,
      two_owner_state
        \<lparr>datainfos := [bobs_mydir,
                        \<lparr>info_id = 2, info_root = ''/mydir/'', info_name = ''sub'', info_is_dir = True,
                          info_size = 0, info_user_id = 1\<rparr>],
         autoincrement := 3,
         storage := [(''/srv/storage/1/root/mydir/sub'', PDir), (''/srv/storage/2/root/mydir'', PDir)]\<rparr>)"
  by (simp add: DataDirectoryCRUDManager_create_def ex_defs eval_defs)

subsection \<open>The rename cascade\<close>

text \<open>
  Claim C3: a rename of a directory replaces, in the parent path of each descendant,
  exactly the leading prefix \<open>old_path + old_name + "/"\<close> and leaves the rest of the path
  unchanged. The code rewrites with SQL's \<^verbatim>\<open>REPLACE\<close>, which replaces every occurrence:
  renaming \<open>/a\<close> to \<open>b\<close> turns the parent path \<open>/a/x/a/\<close> of \<open>f.txt\<close> into
  \<open>/b/x/b/\<close>, not \<open>/b/x/a/\<close>.
\<close>

theorem rename_rewrites_inner_occurrence:
  "map info_root (datainfos (snd (DataDBQueryUpdator True ''b'' 1 1 nested_state))) =
     [''/'', ''/b/'', ''/b/x/'', ''/b/x/b/'']"
  by (simp add: ex_defs eval_defs)

subsection \<open>A create that asks for nothing\<close>

text \<open>
  Claim C10: when the caller passes the permission check and the request holds neither a
  file nor a directory name (no name, or the empty one), \<^verbatim>\<open>DataManager.create\<close> returns
  \<^verbatim>\<open>None\<close>, raises nothing and leaves the metadata store and the physical store as they
  were.
\<close>

theorem create_nothing_requested:
  assumes "check_permission decode_token LoginedOnly s token user_id = Inr operator"
    and "req_dirname = None \<or> req_dirname = Some []"
  shows "DataManager_create decode_token LoginedOnly commit_ok token user_id data_id None req_dirname s
           = (Inr None, s)"
  using assms by (auto simp: DataManager_create_def)

theorem create_nothing_requested_witness:
  "check_permission ex_decode_token ex_LoginedOnly two_owner_state ''alice-token'' 1 = Inr alice \<and>
   DataManager_create ex_decode_token ex_LoginedOnly True ''alice-token'' 1 0 None None two_owner_state
     = (Inr None, two_owner_state)"
proof -
  have p: "check_permission ex_decode_token ex_LoginedOnly two_owner_state ''alice-token'' 1 = Inr alice"
    by (simp add: ex_defs eval_defs)
  show ?thesis
    using p create_nothing_requested [OF p, of None True 0] by simp
qed

subsection \<open>A read of a record whose object is gone\<close>

text \<open>
  A read by id looks the row up by its id alone; the destroyer removes the row (and, for a
  directory, the rows below it) and touches neither the users nor the physical store.
\<close>

lemma reader_by_id:
  "data_id \<noteq> 0 \<Longrightarrow>
   DataDBQueryReader s user_id None (Some data_id) full_root =
     scalar (filter (\<lambda>d. info_id d = data_id) (datainfos s))"
  by (simp add: DataDBQueryReader_def truthy_int_def Let_def split: sum.splits)

lemma destroyer_purges:
  assumes "filter (\<lambda>d. info_id d = data_id) (datainfos s) = [d]"
  shows "\<exists>s'. DataDBQueryDestroyer True data_id s = (Inr (info_root d, info_name d), s') \<and>
              filter (\<lambda>d. info_id d = data_id) (datainfos s') = [] \<and>
              users s' = users s \<and> storage s' = storage s \<and> server_storage s' = server_storage s"
  using assms by (auto simp: DataDBQueryDestroyer_def scalar_def Let_def filter_empty_conv)

lemma check_permission_users:
  "users s' = users s \<Longrightarrow>
   check_permission decode_token LoginedOnly s' token user_id =
   check_permission decode_token LoginedOnly s token user_id"
  by (auto simp: check_permission_def UserDBQuery_read_email_def split: sum.splits)

lemma read_id_users:
  "users s' = users s \<Longrightarrow> UserDBQuery_read_id s' user_id = UserDBQuery_read_id s user_id"
  by (simp add: UserDBQuery_read_id_def)

lemma read_not_found_when_no_row:
  assumes "check_permission decode_token LoginedOnly s token user_id = Inr operator"
    and "UserDBQuery_read_id s user_id = Some u"
    and "filter (\<lambda>d. info_id d = data_id) (datainfos s) = []"
  shows "DataManager_read decode_token LoginedOnly commit_ok token user_id data_id mode s
           = (Inl DataNotFound, s)"
  using assms
  by (simp add: DataManager_read_def DataDBQueryReader_def truthy_int_def scalar_def Let_def)

text \<open>
  When the record read is one of the requested owner, the read heals the table: with the
  object absent at the record's path the row is deleted and the read fails with
  \<open>NotFound\<close>, and so does every later read of the id.
\<close>

lemma read_purges_own_orphan:
  assumes perm: "check_permission decode_token LoginedOnly s token user_id = Inr operator"
    and usr: "UserDBQuery_read_id s user_id = Some u"
    and nz: "data_id \<noteq> 0"
    and row: "filter (\<lambda>d. info_id d = data_id) (datainfos s) = [d]"
    and own: "info_user_id d = user_id"
    and absent: "\<not> DataStorageQuery_read s (raw_root_of s (info_user_id d) (info_root d) (info_name d))
                     (info_is_dir d)"
  shows "\<exists>s'. DataManager_read decode_token LoginedOnly True token user_id data_id mode s
                 = (Inl DataNotFound, s') \<and>
              filter (\<lambda>d. info_id d = data_id) (datainfos s') = [] \<and>
              DataManager_read decode_token LoginedOnly commit_ok' token user_id data_id mode' s'
                 = (Inl DataNotFound, s')"
proof -
  from destroyer_purges [OF row] obtain s' where
    d: "DataDBQueryDestroyer True data_id s = (Inr (info_root d, info_name d), s')"
    and gone: "filter (\<lambda>d. info_id d = data_id) (datainfos s') = []"
    and same: "users s' = users s" by blast
  have "d \<in> set (filter (\<lambda>d. info_id d = data_id) (datainfos s))"
    by (simp add: row)
  then have idd: "info_id d = data_id"
    by simp
  have first: "DataManager_read decode_token LoginedOnly True token user_id data_id mode s
                 = (Inl DataNotFound, s')"
    using perm usr nz row absent d idd own
    by (simp add: DataManager_read_def reader_by_id scalar_def Let_def)
  have second: "DataManager_read decode_token LoginedOnly commit_ok' token user_id data_id mode' s'
                 = (Inl DataNotFound, s')"
    using perm usr gone
    by (intro read_not_found_when_no_row [where operator = operator and u = u])
       (simp_all add: check_permission_users [OF same] read_id_users [OF same])
  from first gone second show ?thesis by blast
qed

lemma read_purges_own_orphan_example:
  "\<exists>s'. DataManager_read ex_decode_token ex_LoginedOnly True ''alice-token'' 1 1 ''info'' orphan_state
            = (Inl DataNotFound, s') \<and>
        filter (\<lambda>d. info_id d = 1) (datainfos s') = [] \<and>
        DataManager_read ex_decode_token ex_LoginedOnly True ''alice-token'' 1 1 ''download'' s'
            = (Inl DataNotFound, s')"
proof -
  have perm: "check_permission ex_decode_token ex_LoginedOnly orphan_state ''alice-token'' 1 = Inr alice"
    by (simp add: ex_defs eval_defs)
  have usr: "UserDBQuery_read_id orphan_state 1 = Some alice"
    by (simp add: ex_defs eval_defs)
  have row: "filter (\<lambda>d. info_id d = 1) (datainfos orphan_state) = [alices_hi]"
    by (simp add: ex_defs)
  have own: "info_user_id alices_hi = 1"
    by (simp add: ex_defs)
  have absent: "\<not> DataStorageQuery_read orphan_state
                    (raw_root_of orphan_state (info_user_id alices_hi) (info_root alices_hi)
                       (info_name alices_hi))
                    (info_is_dir alices_hi)"
    by (simp add: ex_defs DataStorageQuery_read_def)
  show ?thesis
    by (rule read_purges_own_orphan [OF perm usr _ row own absent]) simp
qed

text \<open>
  Claim C2: a read, in info or in download mode, of an id whose record exists while the
  physical object is absent at the path the record implies deletes the record and fails
  with \<open>NotFound\<close>, and so does a second read of the same id. The code probes the path
  \<^verbatim>\<open>storage/{user_id}/root{root}{name}\<close> built from the \<^verbatim>\<open>user_id\<close> of the request, and
  the reader's owner filter is built and dropped, so the row it finds need not belong to
  that user. Alice reads id 1, which is Bob's record of \<open>/hi.txt\<close>; Bob's file is gone from
  the disk, but Alice's tree holds a file at the same relative path. The read does not
  fail and purges nothing: it answers with the twelve bytes of Alice's file and writes
  that size into Bob's orphaned row.
\<close>

theorem read_keeps_foreign_orphan:
  "map_of (storage foreign_orphan_state)
     (raw_root_of foreign_orphan_state (info_user_id bobs_hi) (info_root bobs_hi) (info_name bobs_hi))
     = None \<and>
   DataManager_read ex_decode_token ex_LoginedOnly True ''alice-token'' 1 1 ''info'' foreign_orphan_state =
     (Inr \<lparr>res_root = ''/'', res_is_dir = False, res_name = ''hi.txt'', res_size = 12,
            res_file = None\<rparr>,
      foreign_orphan_state\<lparr>datainfos := [bobs_hi\<lparr>info_size := 12\<rparr>]\<rparr>)"
  by (simp add: DataManager_read_def ex_defs eval_defs)

subsection \<open>Size reconciliation\<close>

text \<open>
  \<^verbatim>\<open>sync_file_size\<close> writes the byte length of the file into the row with the given id.
\<close>

lemma filter_id_map_size:
  "filter (\<lambda>d. info_id d = i) (map (\<lambda>x. if info_id x = i then x\<lparr>info_size := n\<rparr> else x) xs) =
   map (\<lambda>x. x\<lparr>info_size := n\<rparr>) (filter (\<lambda>d. info_id d = i) xs)"
  by (induction xs) auto

lemma sync_file_size_ok:
  assumes row: "filter (\<lambda>d. info_id d = data_id) (datainfos s) = [d]"
    and phys: "map_of (storage s) full_root = Some (PFile c)"
  shows "\<exists>s'. sync_file_size True data_id full_root s = (Inr (d\<lparr>info_size := int (length c)\<rparr>), s') \<and>
              filter (\<lambda>d. info_id d = data_id) (datainfos s') = [d\<lparr>info_size := int (length c)\<rparr>] \<and>
              storage s' = storage s"
  using assms
  by (auto simp: sync_file_size_def scalar_def os_path_getsize_def filter_id_map_size)

text \<open>
  When the record read is a file of the requested owner and its object exists, the read
  returns the byte length of that object and leaves the row holding it.
\<close>

lemma read_reconciles_own_size:
  assumes perm: "check_permission decode_token LoginedOnly s token user_id = Inr operator"
    and usr: "UserDBQuery_read_id s user_id = Some u"
    and nz: "data_id \<noteq> 0"
    and row: "filter (\<lambda>d. info_id d = data_id) (datainfos s) = [d]"
    and own: "info_user_id d = user_id"
    and isfile: "\<not> info_is_dir d"
    and phys: "map_of (storage s) (raw_root_of s (info_user_id d) (info_root d) (info_name d))
                 = Some (PFile c)"
  shows "\<exists>res s'. DataManager_read decode_token LoginedOnly True token user_id data_id mode s
                    = (Inr res, s') \<and>
                  res_size res = int (length c) \<and>
                  filter (\<lambda>d. info_id d = data_id) (datainfos s') = [d\<lparr>info_size := int (length c)\<rparr>] \<and>
                  storage s' = storage s"
proof -
  let ?raw = "raw_root_of s user_id (info_root d) (info_name d)"
  from phys own have phys': "map_of (storage s) ?raw = Some (PFile c)"
    by simp
  from sync_file_size_ok [OF row phys'] obtain s' where
    sync: "sync_file_size True data_id ?raw s = (Inr (d\<lparr>info_size := int (length c)\<rparr>), s')"
    and kept: "filter (\<lambda>d. info_id d = data_id) (datainfos s') = [d\<lparr>info_size := int (length c)\<rparr>]"
    and fs: "storage s' = storage s" by blast
  have probe: "DataStorageQuery_read s ?raw (info_is_dir d)"
    using isfile phys' by (simp add: DataStorageQuery_read_def)
  have "DataManager_read decode_token LoginedOnly True token user_id data_id mode s =
          (Inr \<lparr>res_root = info_root d, res_is_dir = False, res_name = info_name d,
                res_size = int (length c),
                res_file = (if mode = ''download'' then Some (FilePath ?raw) else None)\<rparr>, s')"
    using perm usr nz row isfile probe sync
    by (simp add: DataManager_read_def reader_by_id scalar_def Let_def)
  with kept fs show ?thesis by simp
qed

lemma read_reconciles_own_size_example:
  "\<exists>res s'. DataManager_read ex_decode_token ex_LoginedOnly True ''alice-token'' 1 1 ''info'' drift_state
               = (Inr res, s') \<and>
             res_size res = 12 \<and>
             filter (\<lambda>d. info_id d = 1) (datainfos s') = [alices_hi\<lparr>info_size := 12\<rparr>] \<and>
             storage s' = storage drift_state"
proof -
  have perm: "check_permission ex_decode_token ex_LoginedOnly drift_state ''alice-token'' 1 = Inr alice"
    by (simp add: ex_defs eval_defs)
  have usr: "UserDBQuery_read_id drift_state 1 = Some alice"
    by (simp add: ex_defs eval_defs)
  have row: "filter (\<lambda>d. info_id d = 1) (datainfos drift_state) = [alices_hi]"
    by (simp add: ex_defs)
  have own: "info_user_id alices_hi = 1"
    by (simp add: ex_defs)
  have isfile: "\<not> info_is_dir alices_hi"
    by (simp add: ex_defs)
  have phys: "map_of (storage drift_state)
                (raw_root_of drift_state (info_user_id alices_hi) (info_root alices_hi)
                   (info_name alices_hi))
              = Some (PFile ''hello world!'')"
    by (simp add: ex_defs raw_root_of_def str_int_def str_nat.simps digit_char_def)
  show ?thesis
    using read_reconciles_own_size [OF perm usr _ row own isfile phys, of "''info''"] by simp
qed

text \<open>
  Claim C4: a read of a file whose physical object exists returns the byte length of the
  file on disk as the size and persists that length when the stored size differs. The
  code measures the path built from the \<^verbatim>\<open>user_id\<close> of the request, and the reader's owner
  filter is built and dropped. Alice reads id 1, which is Bob's record of \<open>/hi.txt\<close>: Bob's
  file has five bytes and his row says 5. The read returns 12, the length of Alice's file
  at the same relative path, and overwrites the correct size in Bob's row with 12.
\<close>

theorem read_measures_requesters_file:
  "os_path_getsize foreign_file_state
     (raw_root_of foreign_file_state (info_user_id bobs_hi) (info_root bobs_hi) (info_name bobs_hi))
     = Inr 5 \<and>
   DataManager_read ex_decode_token ex_LoginedOnly True ''alice-token'' 1 1 ''info'' foreign_file_state =
     (Inr \<lparr>res_root = ''/'', res_is_dir = False, res_name = ''hi.txt'', res_size = 12,
            res_file = None\<rparr>,
      foreign_file_state\<lparr>datainfos := [bobs_hi\<lparr>info_size := 12\<rparr>]\<rparr>)"
  by (simp add: DataManager_read_def ex_defs eval_defs)

subsection \<open>The stored name of an upload\<close>

text \<open>
  The last piece of \<^verbatim>\<open>s.split('/')\<close> is what follows the last \<open>/\<close> of \<open>s\<close>, and the whole of
  \<open>s\<close> when it has none.
\<close>

lemma split_str_not_Nil: "split_str sep xs \<noteq> []"
  by (induction xs) (auto split: list.splits)

lemma split_str_no_sep: "sep \<notin> set xs \<Longrightarrow> split_str sep xs = [xs]"
  by (induction xs) auto

lemma split_str_two: "sep \<in> set xs \<Longrightarrow> \<exists>w v vs. split_str sep xs = w # v # vs"
proof (induction xs)
  case Nil
  then show ?case by simp
next
  case (Cons a xs)
  show ?case
  proof (cases "a = sep")
    case True
    then show ?thesis using split_str_not_Nil [of sep xs] by (auto simp: neq_Nil_conv)
  next
    case False
    with Cons.prems have "sep \<in> set xs" by simp
    from Cons.IH [OF this] obtain w v vs where "split_str sep xs = w # v # vs" by blast
    with False show ?thesis by simp
  qed
qed

lemma last_split_str_Cons:
  assumes "sep \<in> set xs"
  shows "last (split_str sep (c # xs)) = last (split_str sep xs)"
proof -
  from split_str_two [OF assms] obtain w v vs where "split_str sep xs = w # v # vs" by blast
  then show ?thesis by simp
qed

lemma takeWhile_no_sep:
  "sep \<notin> set ys \<Longrightarrow> takeWhile (\<lambda>c. c \<noteq> sep) (ys @ zs) = ys @ takeWhile (\<lambda>c. c \<noteq> sep) zs"
  by (induction ys) auto

lemma takeWhile_until_sep:
  "sep \<in> set ys \<Longrightarrow> takeWhile (\<lambda>c. c \<noteq> sep) (ys @ zs) = takeWhile (\<lambda>c. c \<noteq> sep) ys"
  by (induction ys) auto

lemma last_split_str:
  "last (split_str sep xs) = rev (takeWhile (\<lambda>c. c \<noteq> sep) (rev xs))"
proof (induction xs)
  case Nil
  then show ?case by simp
next
  case (Cons c xs)
  show ?case
  proof (cases "sep \<in> set xs")
    case True
    then have "sep \<in> set (rev xs)" by simp
    from takeWhile_until_sep [OF this] True Cons.IH show ?thesis
      by (simp only: last_split_str_Cons rev.simps)
  next
    case False
    then have "sep \<notin> set (rev xs)" by simp
    note tw = takeWhile_no_sep [OF this, of "[c]"]
    show ?thesis
    proof (cases "c = sep")
      case True
      have l: "last (split_str sep (c # xs)) = xs"
        using True False by (simp add: split_str_no_sep)
      have "takeWhile (\<lambda>c. c \<noteq> sep) [c] = []"
        using True by simp
      then have r: "rev (takeWhile (\<lambda>c. c \<noteq> sep) (rev (c # xs))) = xs"
        unfolding rev.simps tw by simp
      show ?thesis by (simp only: l r)
    next
      case neq: False
      with False have "sep \<notin> set (c # xs)" by simp
      from split_str_no_sep [OF this]
      have l: "last (split_str sep (c # xs)) = c # xs" by simp
      have "takeWhile (\<lambda>c. c \<noteq> sep) [c] = [c]"
        using neq by simp
      then have r: "rev (takeWhile (\<lambda>c. c \<noteq> sep) (rev (c # xs))) = c # xs"
        unfolding rev.simps tw by simp
      show ?thesis by (simp only: l r)
    qed
  qed
qed

lemma last_split_str_idem:
  "last (split_str sep (last (split_str sep xs))) = last (split_str sep xs)"
proof -
  have "sep \<notin> set (rev (takeWhile (\<lambda>c. c \<noteq> sep) (rev xs)))"
    by (auto dest: set_takeWhileD)
  then show ?thesis
    by (simp add: last_split_str [of sep xs] split_str_no_sep)
qed

text \<open>What the metadata calls of a create read and return.\<close>

lemma scalar_Some: "scalar xs = Inr (Some d) \<longleftrightarrow> xs = [d]"
  by (auto simp: scalar_def split: list.splits)

lemma scalar_None: "scalar xs = Inr None \<longleftrightarrow> xs = []"
  by (auto simp: scalar_def split: list.splits)

lemma reader_by_full_root:
  "DataDBQueryReader s user_id None None (Some (r, n)) =
     scalar (filter (\<lambda>d. info_root d = r \<and> info_name d = n) (datainfos s))"
  by (simp add: DataDBQueryReader_def truthy_int_def Let_def split: sum.splits)

lemma datainfos_clear_storage_slot [simp]: "datainfos (clear_storage_slot r s) = datainfos s"
  by (simp add: clear_storage_slot_def DataStorageQuery_destroy_def)

lemma datainfos_create_file [simp]:
  "datainfos (snd (DataStorageQuery_create_file r f s)) = datainfos s"
  by (simp add: DataStorageQuery_create_file_def)

lemma creator_result:
  "DataDBQueryCreator commit_ok fmt s = (Inr info, s') \<Longrightarrow>
   info_name info = fmt_name fmt \<and> info \<in> set (datainfos s')"
  by (auto simp: DataDBQueryCreator_def Let_def split: sum.splits option.splits if_splits)

lemma update_file_automatic_result:
  assumes "update_file_automatic commit_ok i fmt s = (Inr info, s')"
  shows "\<exists>d. filter (\<lambda>x. info_id x = i) (datainfos s) = [d] \<and>
             info = d\<lparr>info_size := fmt_size fmt\<rparr> \<and> info \<in> set (datainfos s')"
proof -
  from assms obtain d where
    row: "filter (\<lambda>x. info_id x = i) (datainfos s) = [d]"
    and info: "info = d\<lparr>info_size := fmt_size fmt\<rparr>"
    and s': "datainfos s' =
               map (\<lambda>x. if info_id x = i then x\<lparr>info_size := fmt_size fmt\<rparr> else x) (datainfos s)"
    by (auto simp: update_file_automatic_def scalar_Some split: sum.splits option.splits if_splits)
  have "d \<in> set (filter (\<lambda>x. info_id x = i) (datainfos s))"
    by (simp add: row)
  then have "d \<in> set (datainfos s)" and "info_id d = i"
    by simp_all
  then have "info \<in> set (datainfos s')"
    unfolding s' info by force
  with row info show ?thesis by blast
qed

lemma upload_stores_last_split:
  assumes "DataFileCRUDManager_create commit_ok root_id user_id file s = (Inr info, s')"
  shows "info_name info = last (split_str CHR ''/'' (file_filename file)) \<and> info \<in> set (datainfos s')"
proof -
  let ?fn = "last (split_str CHR ''/'' (file_filename file))"
  from assms obtain u where u: "UserDBQuery_read_id s user_id = Some u"
    by (auto simp: DataFileCRUDManager_create_def split: option.splits)
  from assms u obtain dir_root where dr: "resolve_dir_root s user_id root_id = Inr dir_root"
    by (auto simp: DataFileCRUDManager_create_def split: sum.splits)
  let ?rows = "filter (\<lambda>d. info_root d = dir_root \<and> info_name d = ?fn) (datainfos s)"
  from assms u dr obtain found where fd: "scalar ?rows = Inr found"
    by (auto simp: DataFileCRUDManager_create_def reader_by_full_root Let_def split: sum.splits)
  let ?id = "case found of Some d \<Rightarrow> info_id d | None \<Rightarrow> 0"
  let ?root = "raw_root_of s user_id dir_root ?fn"
  let ?s1 = "clear_storage_slot ?root s"
  let ?s2 = "snd (DataStorageQuery_create_file ?root file ?s1)"
  let ?fmt = "\<lparr>fmt_name = ?fn, fmt_root = dir_root, fmt_user_id = user_id, fmt_is_dir = False,
               fmt_size = fst (DataStorageQuery_create_file ?root file ?s1)\<rparr>"
  from assms u dr fd have commit:
    "(if ?id \<noteq> 0 then update_file_automatic commit_ok ?id ?fmt ?s2
      else DataDBQueryCreator commit_ok ?fmt ?s2) = (Inr info, s')"
    by (simp add: DataFileCRUDManager_create_def reader_by_full_root Let_def split_beta prod_eq_iff
             split: if_splits sum.splits prod.splits)
  show ?thesis
  proof (cases "?id = 0")
    case True
    with commit have "DataDBQueryCreator commit_ok ?fmt ?s2 = (Inr info, s')" by simp
    from creator_result [OF this] show ?thesis by simp
  next
    case False
    then obtain d0 where found: "found = Some d0" and id0: "info_id d0 \<noteq> 0"
      by (cases found) auto
    from fd found have "?rows = [d0]" by (simp add: scalar_Some)
    then have "d0 \<in> set ?rows" by simp
    then have d0: "d0 \<in> set (datainfos s)" "info_name d0 = ?fn" by simp_all
    from commit False found have "update_file_automatic commit_ok (info_id d0) ?fmt ?s2 = (Inr info, s')"
      by simp
    from update_file_automatic_result [OF this] obtain d where
      row: "filter (\<lambda>x. info_id x = info_id d0) (datainfos s) = [d]"
      and info: "info = d\<lparr>info_size := fmt_size ?fmt\<rparr>" and mem: "info \<in> set (datainfos s')"
      by auto
    from d0 have "d0 \<in> set (filter (\<lambda>x. info_id x = info_id d0) (datainfos s))" by simp
    with row have "d = d0" by simp
    with info d0 mem show ?thesis by simp
  qed
qed

lemma create_reads_last_split_only:
  assumes "last (split_str CHR ''/'' (file_filename file')) = last (split_str CHR ''/'' (file_filename file))"
    and "file_content file' = file_content file"
  shows "DataFileCRUDManager_create commit_ok root_id user_id file' s =
         DataFileCRUDManager_create commit_ok root_id user_id file s"
  unfolding DataFileCRUDManager_create_def DataStorageQuery_create_file_def assms by (rule refl)


text \<open>
  Claim C9: the name stored by a file upload is what follows the last \<open>/\<close> of the file
  name the client sent. The directories of that name are dropped without a trace: an
  upload behaves in every respect like the upload of the same bytes under the last
  component alone, and the record a successful upload returns, created or updated, is in
  the table under that component as its name.
\<close>

theorem upload_name_is_last_component:
  "DataFileCRUDManager_create commit_ok root_id user_id file s =
     DataFileCRUDManager_create commit_ok root_id user_id
       (file\<lparr>file_filename := rev (takeWhile (\<lambda>c. c \<noteq> CHR ''/'') (rev (file_filename file)))\<rparr>) s \<and>
   (DataFileCRUDManager_create commit_ok root_id user_id file s = (Inr info, s') \<longrightarrow>
      info_name info = rev (takeWhile (\<lambda>c. c \<noteq> CHR ''/'') (rev (file_filename file))) \<and>
      info \<in> set (datainfos s'))"
proof -
  let ?fn = "rev (takeWhile (\<lambda>c. c \<noteq> CHR ''/'') (rev (file_filename file)))"
  have fn: "last (split_str CHR ''/'' (file_filename file)) = ?fn"
    by (rule last_split_str)
  have "last (split_str CHR ''/'' (file_filename (file\<lparr>file_filename := ?fn\<rparr>))) =
        last (split_str CHR ''/'' (file_filename file))"
    using last_split_str_idem [of "CHR ''/''" "file_filename file"] by (simp add: fn)
  then have same: "DataFileCRUDManager_create commit_ok root_id user_id (file\<lparr>file_filename := ?fn\<rparr>) s =
             DataFileCRUDManager_create commit_ok root_id user_id file s"
    by (rule create_reads_last_split_only) simp
  show ?thesis
  proof (intro conjI impI)
    show "DataFileCRUDManager_create commit_ok root_id user_id file s =
          DataFileCRUDManager_create commit_ok root_id user_id (file\<lparr>file_filename := ?fn\<rparr>) s"
      using same by simp
  next
    assume ok: "DataFileCRUDManager_create commit_ok root_id user_id file s = (Inr info, s')"
    from upload_stores_last_split [OF ok] fn show "info_name info = ?fn"
      by simp
  next
    assume ok: "DataFileCRUDManager_create commit_ok root_id user_id file s = (Inr info, s')"
    from upload_stores_last_split [OF ok] show "info \<in> set (datainfos s')"
      by simp
  qed
qed

theorem upload_name_is_last_component_witness:
  "DataFileCRUDManager_create True 0 1
     \<lparr>file_filename = ''docs/2024/hi.txt'', file_content = ''hello''\<rparr> two_owner_state =
     (Inr \<lparr>info_id = 2, info_root = ''/'', info_name = ''hi.txt'', info_is_dir = False,
            info_size = 5, info_user_id = 1\<rparr>,
      two_owner_state
        \<lparr>datainfos := [bobs_mydir,
                        \<lparr>info_id = 2, info_root = ''/'', info_name = ''hi.txt'', info_is_dir = False,
                          info_size = 5, info_user_id = 1\<rparr>],
         autoincrement := 3,
         storage := [(''/srv/storage/1/root/hi.txt'', PFile ''hello''),
                     (''/srv/storage/2/root/mydir'', PDir)]\<rparr>) \<and>
   DataFileCRUDManager_create True 0 1
     \<lparr>file_filename = ''docs/2024/hi.txt'', file_content = ''hello''\<rparr> two_owner_state =
   DataFileCRUDManager_create True 0 1
     \<lparr>file_filename = ''hi.txt'', file_content = ''hello''\<rparr> two_owner_state"
proof -
  have run: "DataFileCRUDManager_create True 0 1
     \<lparr>file_filename = ''docs/2024/hi.txt'', file_content = ''hello''\<rparr> two_owner_state =
     (Inr \<lparr>info_id = 2, info_root = ''/'', info_name = ''hi.txt'', info_is_dir = False,
            info_size = 5, info_user_id = 1\<rparr>,
      two_owner_state
        \<lparr>datainfos := [bobs_mydir,
                        \<lparr>info_id = 2, info_root = ''/'', info_name = ''hi.txt'', info_is_dir = False,
                          info_size = 5, info_user_id = 1\<rparr>],
         autoincrement := 3,
         storage := [(''/srv/storage/1/root/hi.txt'', PFile ''hello''),
                     (''/srv/storage/2/root/mydir'', PDir)]\<rparr>)"
    by (simp add: DataFileCRUDManager_create_def ex_defs eval_defs)
  from upload_name_is_last_component
         [of True 0 1 "\<lparr>file_filename = ''docs/2024/hi.txt'', file_content = ''hello''\<rparr>"
             two_owner_state]
       run
  show ?thesis
    by simp
qed

subsection \<open>The permission check of the front-end manager\<close>

text \<open>
  \<open>PermissionError\<close> is raised by the permission check and by nothing behind it: neither
  the metadata store nor the managers raise it. The source raises Python's built-in
  \<^verbatim>\<open>PermissionError\<close>, which a file system that refuses an operation raises as well; the
  physical store of this development performs every operation it is asked for.
\<close>

lemma scalar_not_denied: "scalar xs \<noteq> Inl PermissionError"
  by (simp add: scalar_def split: list.splits)

lemma reader_not_denied: "DataDBQueryReader s user_id is_dir data_id full_root \<noteq> Inl PermissionError"
  by (auto simp: DataDBQueryReader_def Let_def scalar_not_denied split: sum.splits option.splits if_splits)

lemma resolve_dir_root_not_denied: "resolve_dir_root s user_id root_id \<noteq> Inl PermissionError"
  using reader_not_denied [of s "Some user_id" "Some True" "Some root_id" None]
  by (auto simp: resolve_dir_root_def split: sum.splits option.splits)

lemma creator_not_denied: "fst (DataDBQueryCreator commit_ok fmt s) \<noteq> Inl PermissionError"
  by (auto simp: DataDBQueryCreator_def Let_def scalar_not_denied split: sum.splits option.splits)

lemma update_file_automatic_not_denied:
  "fst (update_file_automatic commit_ok i fmt s) \<noteq> Inl PermissionError"
  by (auto simp: update_file_automatic_def scalar_not_denied split: sum.splits option.splits)

lemma sync_file_size_not_denied: "fst (sync_file_size commit_ok i p s) \<noteq> Inl PermissionError"
  by (auto simp: sync_file_size_def os_path_getsize_def scalar_not_denied
           split: sum.splits option.splits fsobj.splits)

lemma destroyer_not_denied: "fst (DataDBQueryDestroyer commit_ok i s) \<noteq> Inl PermissionError"
  by (auto simp: DataDBQueryDestroyer_def Let_def scalar_not_denied split: sum.splits option.splits)

lemma updator_not_denied: "fst (DataDBQueryUpdator commit_ok n u i s) \<noteq> Inl PermissionError"
  by (auto simp: DataDBQueryUpdator_def Let_def scalar_not_denied split: sum.splits option.splits)

lemma storage_update_not_denied: "fst (DataStorageQuery_update r n s) \<noteq> Inl PermissionError"
  by (simp add: DataStorageQuery_update_def Let_def)

lemma file_create_not_denied:
  "fst (DataFileCRUDManager_create commit_ok root_id user_id file s) \<noteq> Inl PermissionError"
  using resolve_dir_root_not_denied [of s user_id root_id]
        reader_not_denied [of s "Some user_id" None None]
        creator_not_denied [of commit_ok] update_file_automatic_not_denied [of commit_ok]
  by (auto simp: DataFileCRUDManager_create_def Let_def split_beta
           split: sum.splits option.splits prod.splits if_splits)


lemma dir_create_not_denied:
  "fst (DataDirectoryCRUDManager_create commit_ok root_id user_id dirname s) \<noteq> Inl PermissionError"
  using resolve_dir_root_not_denied [of s user_id root_id]
        reader_not_denied [of s "Some user_id" None None]
        creator_not_denied [of commit_ok]
  by (auto simp: DataDirectoryCRUDManager_create_def Let_def split_beta
           split: sum.splits option.splits prod.splits if_splits)

lemma update_not_denied:
  "fst (CRUDManager_update kind commit_ok user_id data_id new_name s) \<noteq> Inl PermissionError"
  using reader_not_denied [of s "Some user_id" kind "Some data_id" None]
        destroyer_not_denied [of commit_ok data_id] updator_not_denied [of commit_ok new_name user_id]
        storage_update_not_denied
  by (auto simp: CRUDManager_update_def Let_def split_beta
           split: sum.splits option.splits prod.splits if_splits)

lemma destroy_not_denied:
  "fst (CRUDManager_destroy commit_ok user_id data_id s) \<noteq> Inl PermissionError"
  using destroyer_not_denied [of commit_ok data_id s]
  by (auto simp: CRUDManager_destroy_def split: sum.splits prod.splits)

lemma check_permission_denied_iff:
  assumes "decode_token token = Inr (op_email, issue)"
  shows "check_permission decode_token LoginedOnly s token user_id = Inl PermissionError \<longleftrightarrow>
         \<not> (\<exists>operator. UserDBQuery_read_email s op_email = Some operator \<and>
               LoginedOnly issue \<and>
               (usr_is_admin operator \<or> (\<not> usr_is_admin operator \<and> usr_id operator = user_id)))"
  using assms
  by (auto simp: check_permission_def composite_permission_def AdminOnly_def OnlyMine_def
           split: option.splits)

lemma check_permission_cases:
  assumes "decode_token token = Inr (op_email, issue)"
  shows "check_permission decode_token LoginedOnly s token user_id = Inl PermissionError \<or>
         (\<exists>operator. check_permission decode_token LoginedOnly s token user_id = Inr operator)"
  using assms by (auto simp: check_permission_def split: option.splits)

lemma not_denied_pair: "fst x \<noteq> Inl PermissionError \<Longrightarrow> x \<noteq> (Inl PermissionError, s')"
  by auto

lemmas never_denied =
  file_create_not_denied [THEN not_denied_pair] dir_create_not_denied [THEN not_denied_pair]
  update_not_denied [THEN not_denied_pair] destroy_not_denied [THEN not_denied_pair]
  destroyer_not_denied [THEN not_denied_pair] sync_file_size_not_denied [THEN not_denied_pair]
  reader_not_denied

lemma create_denied_iff:
  "fst (DataManager_create decode_token LoginedOnly commit_ok token user_id data_id req_file req_dirname s)
     = Inl PermissionError \<longleftrightarrow>
   check_permission decode_token LoginedOnly s token user_id = Inl PermissionError"
  by (auto simp: DataManager_create_def never_denied
           split: sum.splits option.splits prod.splits if_splits)

lemma read_denied_iff:
  "fst (DataManager_read decode_token LoginedOnly commit_ok token user_id data_id mode s)
     = Inl PermissionError \<longleftrightarrow>
   check_permission decode_token LoginedOnly s token user_id = Inl PermissionError"
  by (auto simp: DataManager_read_def Let_def never_denied
           split: sum.splits option.splits prod.splits if_splits)

lemma update_denied_iff:
  "fst (DataManager_update decode_token LoginedOnly commit_ok token user_id data_id new_name s)
     = Inl PermissionError \<longleftrightarrow>
   check_permission decode_token LoginedOnly s token user_id = Inl PermissionError"
  by (auto simp: DataManager_update_def DataFileCRUDManager_update_def
                 DataDirectoryCRUDManager_update_def never_denied update_not_denied
           split: sum.splits option.splits)

lemma destroy_denied_iff:
  "fst (DataManager_destroy decode_token LoginedOnly commit_ok token user_id data_id s)
     = Inl PermissionError \<longleftrightarrow>
   check_permission decode_token LoginedOnly s token user_id = Inl PermissionError"
  by (auto simp: DataManager_destroy_def never_denied destroy_not_denied
           split: sum.splits option.splits)

lemma denied_leaves_state:
  assumes "check_permission decode_token LoginedOnly s token user_id = Inl PermissionError"
  shows "DataManager_create decode_token LoginedOnly c1 token user_id i1 req_file req_dirname s
           = (Inl PermissionError, s)"
    and "DataManager_read decode_token LoginedOnly c2 token user_id i2 mode s = (Inl PermissionError, s)"
    and "DataManager_update decode_token LoginedOnly c3 token user_id i3 new_name s
           = (Inl PermissionError, s)"
    and "DataManager_destroy decode_token LoginedOnly c4 token user_id i4 s = (Inl PermissionError, s)"
  using assms
  by (simp_all add: DataManager_create_def DataManager_read_def DataManager_update_def
        DataManager_destroy_def)

text \<open>
  Claim C6: for each of \<^verbatim>\<open>create\<close>, \<^verbatim>\<open>read\<close>, \<^verbatim>\<open>update\<close> and \<^verbatim>\<open>destroy\<close> of
  \<^verbatim>\<open>DataManager\<close>, called with a token that decodes, the call raises \<open>PermissionError\<close>
  exactly when the policy fails, that is unless the e-mail of the token belongs to a user
  for whom \<open>Authenticated AND (IsAdmin OR (NOT IsAdmin AND IsOwner))\<close> holds, where
  \<open>IsOwner\<close> compares the id of that user with the \<^verbatim>\<open>user_id\<close> of the call. A denied
  call raises before it looks at any record: in every state with the same user table,
  whatever its records and its physical store hold, it raises \<open>PermissionError\<close> and
  leaves the state as it is, so that the caller cannot tell whether the target exists.
\<close>

theorem permission_gate:
  assumes tok: "decode_token token = Inr (op_email, issue)"
    and same_users: "users s' = users s"
  shows
    "let permitted =
           (\<exists>operator. UserDBQuery_read_email s op_email = Some operator \<and>
              LoginedOnly issue \<and>
              (usr_is_admin operator \<or> (\<not> usr_is_admin operator \<and> usr_id operator = user_id)))
     in (fst (DataManager_create decode_token LoginedOnly c1 token user_id i1 req_file req_dirname s)
           = Inl PermissionError \<longleftrightarrow> \<not> permitted) \<and>
        (fst (DataManager_read decode_token LoginedOnly c2 token user_id i2 mode s)
           = Inl PermissionError \<longleftrightarrow> \<not> permitted) \<and>
        (fst (DataManager_update decode_token LoginedOnly c3 token user_id i3 new_name s)
           = Inl PermissionError \<longleftrightarrow> \<not> permitted) \<and>
        (fst (DataManager_destroy decode_token LoginedOnly c4 token user_id i4 s)
           = Inl PermissionError \<longleftrightarrow> \<not> permitted) \<and>
        (\<not> permitted \<longrightarrow>
           DataManager_create decode_token LoginedOnly c1 token user_id i1 req_file req_dirname s'
             = (Inl PermissionError, s') \<and>
           DataManager_read decode_token LoginedOnly c2 token user_id i2 mode s'
             = (Inl PermissionError, s') \<and>
           DataManager_update decode_token LoginedOnly c3 token user_id i3 new_name s'
             = (Inl PermissionError, s') \<and>
           DataManager_destroy decode_token LoginedOnly c4 token user_id i4 s'
             = (Inl PermissionError, s'))"
proof -
  let ?permitted =
    "\<exists>operator. UserDBQuery_read_email s op_email = Some operator \<and>
       LoginedOnly issue \<and>
       (usr_is_admin operator \<or> (\<not> usr_is_admin operator \<and> usr_id operator = user_id))"
  note gate = check_permission_denied_iff
    [where decode_token = decode_token and token = token and LoginedOnly = LoginedOnly
       and s = s and user_id = user_id, OF tok]
  have c: "fst (DataManager_create decode_token LoginedOnly c1 token user_id i1 req_file req_dirname s)
             = Inl PermissionError \<longleftrightarrow> \<not> ?permitted"
    unfolding create_denied_iff by (rule gate)
  have r: "fst (DataManager_read decode_token LoginedOnly c2 token user_id i2 mode s)
             = Inl PermissionError \<longleftrightarrow> \<not> ?permitted"
    unfolding read_denied_iff by (rule gate)
  have u: "fst (DataManager_update decode_token LoginedOnly c3 token user_id i3 new_name s)
             = Inl PermissionError \<longleftrightarrow> \<not> ?permitted"
    unfolding update_denied_iff by (rule gate)
  have d: "fst (DataManager_destroy decode_token LoginedOnly c4 token user_id i4 s)
             = Inl PermissionError \<longleftrightarrow> \<not> ?permitted"
    unfolding destroy_denied_iff by (rule gate)
  have other:
    "\<not> ?permitted \<longrightarrow>
     DataManager_create decode_token LoginedOnly c1 token user_id i1 req_file req_dirname s'
       = (Inl PermissionError, s') \<and>
     DataManager_read decode_token LoginedOnly c2 token user_id i2 mode s'
       = (Inl PermissionError, s') \<and>
     DataManager_update decode_token LoginedOnly c3 token user_id i3 new_name s'
       = (Inl PermissionError, s') \<and>
     DataManager_destroy decode_token LoginedOnly c4 token user_id i4 s'
       = (Inl PermissionError, s')"
  proof
    assume "\<not> ?permitted"
    with gate have "check_permission decode_token LoginedOnly s token user_id = Inl PermissionError"
      by blast
    then have "check_permission decode_token LoginedOnly s' token user_id = Inl PermissionError"
      by (simp add: check_permission_users [OF same_users])
    from denied_leaves_state [OF this]
    show "DataManager_create decode_token LoginedOnly c1 token user_id i1 req_file req_dirname s'
            = (Inl PermissionError, s') \<and>
          DataManager_read decode_token LoginedOnly c2 token user_id i2 mode s'
            = (Inl PermissionError, s') \<and>
          DataManager_update decode_token LoginedOnly c3 token user_id i3 new_name s'
            = (Inl PermissionError, s') \<and>
          DataManager_destroy decode_token LoginedOnly c4 token user_id i4 s'
            = (Inl PermissionError, s')"
      by simp
  qed
  from c r u d other show ?thesis
    unfolding Let_def by blast
qed

theorem permission_gate_witness:
  "DataManager_create ex_decode_token ex_LoginedOnly True ''bob-token'' 1 1 None (Some ''sub'')
     (two_owner_state\<lparr>datainfos := [], storage := []\<rparr>)
     = (Inl PermissionError, two_owner_state\<lparr>datainfos := [], storage := []\<rparr>) \<and>
   DataManager_read ex_decode_token ex_LoginedOnly True ''bob-token'' 1 1 ''info''
     (two_owner_state\<lparr>datainfos := [], storage := []\<rparr>)
     = (Inl PermissionError, two_owner_state\<lparr>datainfos := [], storage := []\<rparr>) \<and>
   DataManager_update ex_decode_token ex_LoginedOnly True ''bob-token'' 1 1 ''renamed''
     (two_owner_state\<lparr>datainfos := [], storage := []\<rparr>)
     = (Inl PermissionError, two_owner_state\<lparr>datainfos := [], storage := []\<rparr>) \<and>
   DataManager_destroy ex_decode_token ex_LoginedOnly True ''bob-token'' 1 1
     (two_owner_state\<lparr>datainfos := [], storage := []\<rparr>)
     = (Inl PermissionError, two_owner_state\<lparr>datainfos := [], storage := []\<rparr>) \<and>
   fst (DataManager_read ex_decode_token ex_LoginedOnly True ''bob-token'' 1 1 ''info'' two_owner_state)
     = Inl PermissionError \<and>
   fst (DataManager_destroy ex_decode_token ex_LoginedOnly True ''bob-token'' 1 1 two_owner_state)
     = Inl PermissionError"
proof -
  have tok: "ex_decode_token ''bob-token'' = Inr (''bob@example.com'', ''login'')"
    by (simp add: ex_decode_token_def)
  have same_users: "users (two_owner_state\<lparr>datainfos := [], storage := []\<rparr>) = users two_owner_state"
    by simp
  show ?thesis
    using permission_gate [where decode_token = ex_decode_token and token = "''bob-token''"
             and LoginedOnly = ex_LoginedOnly and user_id = 1
             and ?c1.0 = True and ?c2.0 = True and ?c3.0 = True and ?c4.0 = True
             and ?i1.0 = 1 and ?i2.0 = 1 and ?i3.0 = 1 and ?i4.0 = 1
             and req_file = None and req_dirname = "Some ''sub''" and mode = "''info''"
             and new_name = "''renamed''", OF tok same_users]
    by (simp add: Let_def ex_defs UserDBQuery_read_email_def)
qed

subsection \<open>A create whose commit fails\<close>

text \<open>
  Ids are a primary key: a row is the only one with its id. A commit that is refused leaves
  the table as it was, and deleting the target path undoes the write of the new object,
  together with whatever the path held before.
\<close>

lemma filter_id_unique:
  "distinct (map info_id xs) \<Longrightarrow> d \<in> set xs \<Longrightarrow> filter (\<lambda>x. info_id x = info_id d) xs = [d]"
proof (induction xs)
  case Nil
  then show ?case by simp
next
  case (Cons a xs)
  show ?case
  proof (cases "a = d")
    case True
    with Cons.prems have "\<forall>x\<in>set xs. info_id x \<noteq> info_id d" by (auto simp: image_iff)
    then have "filter (\<lambda>x. info_id x = info_id d) xs = []" by (simp add: filter_empty_conv)
    with True show ?thesis by simp
  next
    case False
    with Cons.prems have d: "d \<in> set xs" and dis: "distinct (map info_id xs)" by auto
    from d Cons.prems have "info_id a \<noteq> info_id d" by auto
    with Cons.IH [OF dis d] show ?thesis by simp
  qed
qed

lemma creator_commit_fails:
  assumes "filter (\<lambda>d. info_root d = fmt_root f \<and> info_name d = fmt_name f) (datainfos s) = []"
  shows "DataDBQueryCreator False f s = (Inl CommitError, s)"
proof -
  from assms have "filter (\<lambda>d. info_name d = fmt_name f \<and> info_root d = fmt_root f \<and>
                     info_user_id d = fmt_user_id f \<and> info_is_dir d = fmt_is_dir f) (datainfos s) = []"
    by (auto simp: filter_empty_conv)
  then show ?thesis
    by (simp add: DataDBQueryCreator_def scalar_def)
qed

lemma update_commit_fails:
  "filter (\<lambda>x. info_id x = i) (datainfos s) = [d] \<Longrightarrow>
   update_file_automatic False i f s = (Inl CommitError, s)"
  by (simp add: update_file_automatic_def scalar_def)

lemma filter_not_under_neq:
  "filter (\<lambda>(p, obj). \<not> under_path r p) (filter (\<lambda>(p, obj). p \<noteq> r) xs) =
   filter (\<lambda>(p, obj). \<not> under_path r p) xs"
  by (induction xs) (auto simp: under_path_def)

lemma destroy_clear_storage_slot:
  "DataStorageQuery_destroy r (clear_storage_slot r s) = DataStorageQuery_destroy r s"
  by (simp add: clear_storage_slot_def DataStorageQuery_destroy_def)

lemma destroy_after_write:
  "DataStorageQuery_destroy r (s\<lparr>storage := (r, obj) # filter (\<lambda>(p, obj). p \<noteq> r) (storage s)\<rparr>) =
   DataStorageQuery_destroy r s"
proof -
  have "under_path r r"
    by (simp add: under_path_def)
  then have "filter (\<lambda>(p, obj). \<not> under_path r p) ((r, obj) # filter (\<lambda>(p, obj). p \<noteq> r) (storage s)) =
             filter (\<lambda>(p, obj). \<not> under_path r p) (filter (\<lambda>(p, obj). p \<noteq> r) (storage s))"
    by (simp only: filter.simps prod.case if_False not_True_eq_False)
  also have "\<dots> = filter (\<lambda>(p, obj). \<not> under_path r p) (storage s)"
    by (rule filter_not_under_neq)
  finally show ?thesis
    by (simp add: DataStorageQuery_destroy_def)
qed

lemma destroy_after_create_file:
  "DataStorageQuery_destroy r (snd (DataStorageQuery_create_file r f s)) = DataStorageQuery_destroy r s"
  by (simp only: DataStorageQuery_create_file_def snd_conv destroy_after_write)

lemma destroy_after_create_dir:
  "DataStorageQuery_destroy r (DataStorageQuery_create_dir r s) = DataStorageQuery_destroy r s"
  by (simp only: DataStorageQuery_create_dir_def destroy_after_write)

lemma datainfos_create_dir [simp]: "datainfos (DataStorageQuery_create_dir r s) = datainfos s"
  by (simp add: DataStorageQuery_create_dir_def)

lemma destroy_leaves_nothing:
  "map_of (storage (DataStorageQuery_destroy r s)) r = None \<and>
   datainfos (DataStorageQuery_destroy r s) = datainfos s"
proof -
  have "r \<notin> fst ` set (filter (\<lambda>(p, obj). \<not> under_path r p) (storage s))"
    by (auto simp: under_path_def)
  then show ?thesis
    by (simp add: DataStorageQuery_destroy_def map_of_eq_None_iff)
qed


lemma file_create_commit_failure:
  assumes ids: "distinct (map info_id (datainfos s))" "0 \<notin> set (map info_id (datainfos s))"
    and usr: "UserDBQuery_read_id s user_id = Some u"
    and dir: "resolve_dir_root s user_id root_id = Inr dir_root"
    and name: "valid_name (last (split_str CHR ''/'' (file_filename file)))"
    and slot: "filter (\<lambda>d. info_root d = dir_root \<and>
                           info_name d = last (split_str CHR ''/'' (file_filename file)))
                 (datainfos s) = rows"
    and rows: "rows = [] \<or> (\<exists>d. rows = [d] \<and> \<not> info_is_dir d)"
  shows "DataFileCRUDManager_create False root_id user_id file s =
           (Inl CommitError,
            DataStorageQuery_destroy
              (raw_root_of s user_id dir_root (last (split_str CHR ''/'' (file_filename file)))) s)"
proof -
  let ?fn = "last (split_str CHR ''/'' (file_filename file))"
  let ?root = "raw_root_of s user_id dir_root ?fn"
  let ?s1 = "clear_storage_slot ?root s"
  let ?s2 = "snd (DataStorageQuery_create_file ?root file ?s1)"
  let ?fmt = "\<lparr>fmt_name = ?fn, fmt_root = dir_root, fmt_user_id = user_id, fmt_is_dir = False,
               fmt_size = fst (DataStorageQuery_create_file ?root file ?s1)\<rparr>"
  have undone: "DataStorageQuery_destroy ?root ?s2 = DataStorageQuery_destroy ?root s"
    by (simp only: destroy_after_create_file destroy_clear_storage_slot)
  from rows show ?thesis
  proof
    assume empty: "rows = []"
    with slot have "filter (\<lambda>d. info_root d = fmt_root ?fmt \<and> info_name d = fmt_name ?fmt)
                      (datainfos ?s2) = []"
      by simp
    from creator_commit_fails [OF this]
    have "DataDBQueryCreator False ?fmt ?s2 = (Inl CommitError, ?s2)" .
    with usr dir name slot empty undone show ?thesis
      by (simp add: DataFileCRUDManager_create_def reader_by_full_root scalar_def Let_def split_beta)
  next
    assume "\<exists>d. rows = [d] \<and> \<not> info_is_dir d"
    then obtain d where one: "rows = [d]" and isfile: "\<not> info_is_dir d"
      by blast
    from slot one have "d \<in> set (filter (\<lambda>d. info_root d = dir_root \<and> info_name d = ?fn) (datainfos s))"
      by simp
    then have mem: "d \<in> set (datainfos s)"
      by simp
    with ids have nz: "info_id d \<noteq> 0"
      by force
    from filter_id_unique [OF ids(1) mem]
    have "filter (\<lambda>x. info_id x = info_id d) (datainfos ?s2) = [d]"
      by simp
    from update_commit_fails [OF this]
    have "update_file_automatic False (info_id d) ?fmt ?s2 = (Inl CommitError, ?s2)" .
    with usr dir name slot one isfile nz undone show ?thesis
      by (simp add: DataFileCRUDManager_create_def reader_by_full_root scalar_def Let_def split_beta)
  qed
qed

lemma dir_create_commit_failure:
  assumes usr: "UserDBQuery_read_id s user_id = Some u"
    and dir: "resolve_dir_root s user_id root_id = Inr dir_root"
    and name: "valid_name dirname"
    and slot: "filter (\<lambda>d. info_root d = dir_root \<and> info_name d = dirname) (datainfos s) = []"
  shows "DataDirectoryCRUDManager_create False root_id user_id dirname s =
           (Inl CommitError, DataStorageQuery_destroy (raw_root_of s user_id dir_root dirname) s)"
proof -
  let ?root = "raw_root_of s user_id dir_root dirname"
  let ?s1 = "clear_storage_slot ?root s"
  let ?s2 = "DataStorageQuery_create_dir ?root ?s1"
  let ?fmt = "\<lparr>fmt_name = dirname, fmt_root = dir_root, fmt_user_id = user_id, fmt_is_dir = True,
               fmt_size = 0\<rparr>"
  have undone: "DataStorageQuery_destroy ?root ?s2 = DataStorageQuery_destroy ?root s"
    by (simp only: destroy_after_create_dir destroy_clear_storage_slot)
  from slot have "filter (\<lambda>d. info_root d = fmt_root ?fmt \<and> info_name d = fmt_name ?fmt)
                    (datainfos ?s2) = []"
    by simp
  from creator_commit_fails [OF this]
  have "DataDBQueryCreator False ?fmt ?s2 = (Inl CommitError, ?s2)" .
  with usr dir name slot undone show ?thesis
    by (simp add: DataDirectoryCRUDManager_create_def reader_by_full_root scalar_def Let_def)
qed

text \<open>
  Claim C1: when the physical write of a create succeeds and the commit that follows
  raises, the manager deletes the object just written and raises the error again, so that
  afterwards neither a record nor a physical object exists at the target slot. This fails
  for an upload over an existing file record: Alice uploads \<open>hi.txt\<close> again and the commit
  of the size update is refused. The old object was deleted before the write and the new
  one after the failure, the update was rolled back, and the record of \<open>/hi.txt\<close> is
  still in the table, now without any object.
\<close>

theorem reupload_commit_failure_keeps_record:
  "DataFileCRUDManager_create False 0 1 \<lparr>file_filename = ''hi.txt'', file_content = ''new''\<rparr> drift_state
     = (Inl CommitError, orphan_state) \<and>
   filter (\<lambda>d. info_root d = ''/'' \<and> info_name d = ''hi.txt'' \<and> info_user_id d = 1)
     (datainfos orphan_state) = [alices_hi] \<and>
   storage orphan_state = []"
  by (simp add: DataFileCRUDManager_create_def ex_defs eval_defs)

text \<open>
  Claim C1 as it holds. For the table of a database (distinct ids, none of them \<open>0\<close>), an
  existing owner and a parent that resolves: a file create with a valid name at a slot
  that holds no record or exactly one file record, and a directory create with a valid
  name at a slot that holds no record, both fail with the error of the refused commit and
  leave the state in which the target path has been deleted; in that state no object is
  at the target path and the table is the one before the call, so nothing was inserted
  and the record of a repeated upload remains.
\<close>

theorem create_commit_failure:
  assumes ids: "distinct (map info_id (datainfos s))" "0 \<notin> set (map info_id (datainfos s))"
    and usr: "UserDBQuery_read_id s user_id = Some u"
    and dir: "resolve_dir_root s user_id root_id = Inr dir_root"
    and filename: "filename = last (split_str CHR ''/'' (file_filename file))"
  shows
    "(valid_name filename \<and>
      (filter (\<lambda>d. info_root d = dir_root \<and> info_name d = filename) (datainfos s) = [] \<or>
       (\<exists>d. filter (\<lambda>d. info_root d = dir_root \<and> info_name d = filename) (datainfos s) = [d] \<and>
            \<not> info_is_dir d)) \<longrightarrow>
      DataFileCRUDManager_create False root_id user_id file s =
        (Inl CommitError, DataStorageQuery_destroy (raw_root_of s user_id dir_root filename) s)) \<and>
     (valid_name dirname \<and>
      filter (\<lambda>d. info_root d = dir_root \<and> info_name d = dirname) (datainfos s) = [] \<longrightarrow>
      DataDirectoryCRUDManager_create False root_id user_id dirname s =
        (Inl CommitError, DataStorageQuery_destroy (raw_root_of s user_id dir_root dirname) s)) \<and>
     map_of (storage (DataStorageQuery_destroy target s)) target = None \<and>
     datainfos (DataStorageQuery_destroy target s) = datainfos s"
proof (intro conjI impI)
  assume a: "valid_name filename \<and>
      (filter (\<lambda>d. info_root d = dir_root \<and> info_name d = filename) (datainfos s) = [] \<or>
       (\<exists>d. filter (\<lambda>d. info_root d = dir_root \<and> info_name d = filename) (datainfos s) = [d] \<and>
            \<not> info_is_dir d))"
  then have name: "valid_name (last (split_str CHR ''/'' (file_filename file)))"
    by (simp add: filename)
  from a have rows:
    "filter (\<lambda>d. info_root d = dir_root \<and> info_name d = filename) (datainfos s) = [] \<or>
     (\<exists>d. filter (\<lambda>d. info_root d = dir_root \<and> info_name d = filename) (datainfos s) = [d] \<and>
          \<not> info_is_dir d)"
    by simp
  have slot: "filter (\<lambda>d. info_root d = dir_root \<and>
                          info_name d = last (split_str CHR ''/'' (file_filename file))) (datainfos s) =
              filter (\<lambda>d. info_root d = dir_root \<and> info_name d = filename) (datainfos s)"
    by (simp add: filename)
  from file_create_commit_failure [OF ids usr dir name slot rows]
  show "DataFileCRUDManager_create False root_id user_id file s =
          (Inl CommitError, DataStorageQuery_destroy (raw_root_of s user_id dir_root filename) s)"
    by (simp add: filename)
next
  assume "valid_name dirname \<and>
          filter (\<lambda>d. info_root d = dir_root \<and> info_name d = dirname) (datainfos s) = []"
  then have name: "valid_name dirname"
    and slot: "filter (\<lambda>d. info_root d = dir_root \<and> info_name d = dirname) (datainfos s) = []"
    by simp_all
  from dir_create_commit_failure [OF usr dir name slot]
  show "DataDirectoryCRUDManager_create False root_id user_id dirname s =
          (Inl CommitError, DataStorageQuery_destroy (raw_root_of s user_id dir_root dirname) s)" .
next
  show "map_of (storage (DataStorageQuery_destroy target s)) target = None"
    using destroy_leaves_nothing [of target s] by simp
next
  show "datainfos (DataStorageQuery_destroy target s) = datainfos s"
    using destroy_leaves_nothing [of target s] by simp
qed

theorem create_commit_failure_witness:
  "DataFileCRUDManager_create False 3 1 \<lparr>file_filename = ''f.txt'', file_content = ''new bytes''\<rparr>
     nested_state =
     (Inl CommitError, DataStorageQuery_destroy ''/srv/storage/1/root/a/x/a/f.txt'' nested_state) \<and>
   DataDirectoryCRUDManager_create False 3 1 ''docs'' nested_state =
     (Inl CommitError, DataStorageQuery_destroy ''/srv/storage/1/root/a/x/a/docs'' nested_state) \<and>
   map_of (storage (DataStorageQuery_destroy ''/srv/storage/1/root/a/x/a/f.txt'' nested_state))
     ''/srv/storage/1/root/a/x/a/f.txt'' = None \<and>
   datainfos (DataStorageQuery_destroy ''/srv/storage/1/root/a/x/a/f.txt'' nested_state) =
     datainfos nested_state"
proof -
  have ids: "distinct (map info_id (datainfos nested_state))"
    "0 \<notin> set (map info_id (datainfos nested_state))"
    by (simp_all add: ex_defs)
  have usr: "UserDBQuery_read_id nested_state 1 = Some alice"
    by (simp add: ex_defs eval_defs)
  have dir: "resolve_dir_root nested_state 1 3 = Inr ''/a/x/a/''"
    by (simp add: ex_defs eval_defs)
  have filename: "''f.txt'' = last (split_str CHR ''/''
                     (file_filename \<lparr>file_filename = ''f.txt'', file_content = ''new bytes''\<rparr>))"
    by simp
  have path: "raw_root_of nested_state 1 ''/a/x/a/'' ''f.txt'' = ''/srv/storage/1/root/a/x/a/f.txt''"
    "raw_root_of nested_state 1 ''/a/x/a/'' ''docs'' = ''/srv/storage/1/root/a/x/a/docs''"
    by (simp_all add: ex_defs eval_defs)
  have names: "valid_name ''f.txt''" "valid_name ''docs''"
    by (simp_all add: valid_name_def forbidden_chars_def)
  have slot_file:
    "filter (\<lambda>d. info_root d = ''/a/x/a/'' \<and> info_name d = ''f.txt'') (datainfos nested_state) =
       [\<lparr>info_id = 4, info_root = ''/a/x/a/'', info_name = ''f.txt'', info_is_dir = False,
          info_size = 5, info_user_id = 1\<rparr>]"
    by (simp add: ex_defs)
  have slot_dir:
    "filter (\<lambda>d. info_root d = ''/a/x/a/'' \<and> info_name d = ''docs'') (datainfos nested_state) = []"
    by (simp add: ex_defs)
  show ?thesis
    using create_commit_failure [OF ids usr dir filename, of "''docs''" "''/srv/storage/1/root/a/x/a/f.txt''"]
    by (simp add: path names slot_file slot_dir)
qed

subsection \<open>An upload over an existing file\<close>

text \<open>
  When the record of the owner is the only record with that parent path and name in the
  whole table, an upload over it updates its size in place: the record returned is the
  old one with the new size, it is the one record of the slot, and the table has as many
  rows as before.
\<close>

lemma filter_slot_map_size:
  "filter (\<lambda>d. info_root d = r \<and> info_name d = n)
     (map (\<lambda>x. if info_id x = i then x\<lparr>info_size := k\<rparr> else x) xs) =
   map (\<lambda>x. if info_id x = i then x\<lparr>info_size := k\<rparr> else x)
     (filter (\<lambda>d. info_root d = r \<and> info_name d = n) xs)"
  by (induction xs) auto

lemma update_commit_succeeds:
  "filter (\<lambda>x. info_id x = i) (datainfos s) = [d] \<Longrightarrow>
   update_file_automatic True i f s =
     (Inr (d\<lparr>info_size := fmt_size f\<rparr>),
      s\<lparr>datainfos := map (\<lambda>x. if info_id x = i then x\<lparr>info_size := fmt_size f\<rparr> else x) (datainfos s)\<rparr>)"
  by (simp add: update_file_automatic_def scalar_def)

lemma reupload_updates_in_place:
  assumes ids: "distinct (map info_id (datainfos s))" "0 \<notin> set (map info_id (datainfos s))"
    and usr: "UserDBQuery_read_id s user_id = Some u"
    and dir: "resolve_dir_root s user_id root_id = Inr dir_root"
    and filename: "filename = last (split_str CHR ''/'' (file_filename file))"
    and name: "valid_name filename"
    and slot: "filter (\<lambda>d. info_root d = dir_root \<and> info_name d = filename) (datainfos s) = [d]"
    and isfile: "\<not> info_is_dir d"
    and own: "info_user_id d = user_id"
  shows "\<exists>s'. DataFileCRUDManager_create True root_id user_id file s =
                 (Inr (d\<lparr>info_size := int (length (file_content file))\<rparr>), s') \<and>
              filter (\<lambda>d. info_root d = dir_root \<and> info_name d = filename) (datainfos s') =
                 [d\<lparr>info_size := int (length (file_content file))\<rparr>] \<and>
              length (datainfos s') = length (datainfos s)"
proof -
  let ?root = "raw_root_of s user_id dir_root filename"
  let ?s1 = "clear_storage_slot ?root s"
  let ?s2 = "snd (DataStorageQuery_create_file ?root file ?s1)"
  let ?n = "int (length (file_content file))"
  let ?fmt = "\<lparr>fmt_name = filename, fmt_root = dir_root, fmt_user_id = user_id, fmt_is_dir = False,
               fmt_size = fst (DataStorageQuery_create_file ?root file ?s1)\<rparr>"
  let ?s3 = "?s2\<lparr>datainfos := map (\<lambda>x. if info_id x = info_id d then x\<lparr>info_size := ?n\<rparr> else x)
                                    (datainfos ?s2)\<rparr>"
  have size: "fst (DataStorageQuery_create_file ?root file ?s1) = ?n"
    by (simp add: DataStorageQuery_create_file_def)
  from slot have "d \<in> set (filter (\<lambda>d. info_root d = dir_root \<and> info_name d = filename) (datainfos s))"
    by simp
  then have mem: "d \<in> set (datainfos s)"
    by simp
  with ids have nz: "info_id d \<noteq> 0"
    by force
  from filter_id_unique [OF ids(1) mem]
  have "filter (\<lambda>x. info_id x = info_id d) (datainfos ?s2) = [d]"
    by simp
  from update_commit_succeeds [OF this, of ?fmt]
  have "update_file_automatic True (info_id d) ?fmt ?s2 = (Inr (d\<lparr>info_size := ?n\<rparr>), ?s3)"
    by (simp add: size)
  with usr dir name slot isfile nz
  have run: "DataFileCRUDManager_create True root_id user_id file s = (Inr (d\<lparr>info_size := ?n\<rparr>), ?s3)"
    by (simp add: DataFileCRUDManager_create_def reader_by_full_root scalar_def Let_def split_beta
          filename [symmetric])
  have "filter (\<lambda>d. info_root d = dir_root \<and> info_name d = filename) (datainfos ?s3) =
          [d\<lparr>info_size := ?n\<rparr>]"
    by (simp add: filter_slot_map_size slot)
  moreover have "length (datainfos ?s3) = length (datainfos s)"
    by simp
  ultimately show ?thesis
    using run by blast
qed

text \<open>The table in which two owners hold the same name is reached through a rename.\<close>

lemma shared_name_state_reached:
  "snd (DataManager_update ex_decode_token ex_LoginedOnly True ''bob-token'' 2 2 ''hi.txt''
     (snd (DataManager_create ex_decode_token ex_LoginedOnly True ''bob-token'' 2 0
        (Some \<lparr>file_filename = ''x.txt'', file_content = ''hello''\<rparr>) None
     (snd (DataManager_create ex_decode_token ex_LoginedOnly True ''alice-token'' 1 0
        (Some \<lparr>file_filename = ''hi.txt'', file_content = ''hello world!''\<rparr>) None fresh_state)))))
   = shared_name_state"
proof -
  have one: "DataManager_create ex_decode_token ex_LoginedOnly True ''alice-token'' 1 0
        (Some \<lparr>file_filename = ''hi.txt'', file_content = ''hello world!''\<rparr>) None fresh_state =
        (Inr (Some \<lparr>info_id = 1, info_root = ''/'', info_name = ''hi.txt'', info_is_dir = False,
                      info_size = 12, info_user_id = 1\<rparr>),
         fresh_state\<lparr>datainfos := [\<lparr>info_id = 1, info_root = ''/'', info_name = ''hi.txt'',
                                      info_is_dir = False, info_size = 12, info_user_id = 1\<rparr>],
                      autoincrement := 2,
                      storage := [(''/srv/storage/1/root/hi.txt'', PFile ''hello world!'')]\<rparr>)"
    by (simp add: DataManager_create_def DataFileCRUDManager_create_def ex_defs eval_defs)
  have two: "DataManager_create ex_decode_token ex_LoginedOnly True ''bob-token'' 2 0
        (Some \<lparr>file_filename = ''x.txt'', file_content = ''hello''\<rparr>) None
        (fresh_state\<lparr>datainfos := [\<lparr>info_id = 1, info_root = ''/'', info_name = ''hi.txt'',
                                      info_is_dir = False, info_size = 12, info_user_id = 1\<rparr>],
                      autoincrement := 2,
                      storage := [(''/srv/storage/1/root/hi.txt'', PFile ''hello world!'')]\<rparr>) =
        (Inr (Some \<lparr>info_id = 2, info_root = ''/'', info_name = ''x.txt'', info_is_dir = False,
                      info_size = 5, info_user_id = 2\<rparr>),
         fresh_state\<lparr>datainfos := [\<lparr>info_id = 1, info_root = ''/'', info_name = ''hi.txt'',
                                      info_is_dir = False, info_size = 12, info_user_id = 1\<rparr>,
                                    \<lparr>info_id = 2, info_root = ''/'', info_name = ''x.txt'',
                                      info_is_dir = False, info_size = 5, info_user_id = 2\<rparr>],
                      autoincrement := 3,
                      storage := [(''/srv/storage/2/root/x.txt'', PFile ''hello''),
                                  (''/srv/storage/1/root/hi.txt'', PFile ''hello world!'')]\<rparr>)"
    by (simp add: DataManager_create_def DataFileCRUDManager_create_def ex_defs eval_defs)
  have three: "DataManager_update ex_decode_token ex_LoginedOnly True ''bob-token'' 2 2 ''hi.txt''
        (fresh_state\<lparr>datainfos := [\<lparr>info_id = 1, info_root = ''/'', info_name = ''hi.txt'',
                                      info_is_dir = False, info_size = 12, info_user_id = 1\<rparr>,
                                    \<lparr>info_id = 2, info_root = ''/'', info_name = ''x.txt'',
                                      info_is_dir = False, info_size = 5, info_user_id = 2\<rparr>],
                      autoincrement := 3,
                      storage := [(''/srv/storage/2/root/x.txt'', PFile ''hello''),
                                  (''/srv/storage/1/root/hi.txt'', PFile ''hello world!'')]\<rparr>) =
        (Inr \<lparr>info_id = 2, info_root = ''/'', info_name = ''hi.txt'', info_is_dir = False,
                info_size = 5, info_user_id = 2\<rparr>, shared_name_state)"
    by (simp add: DataManager_update_def DataFileCRUDManager_update_def CRUDManager_update_def
          DataStorageQuery_update_def dirname_of_def ex_defs eval_defs)
  show ?thesis
    by (simp only: one two three snd_conv)
qed

text \<open>
  Claim C5: a file create at a slot that holds a file record of the same owner updates the
  size of that record in place and inserts nothing, so that the owner has one record at
  the slot, with its old id. The reader looks the slot up by parent path and name and
  drops its owner filter, so that Bob's record of the same name is a second row of the
  query: Alice's slot holds exactly her record 1, and her upload of three new bytes raises
  \<open>MultipleResultsFound\<close> and updates nothing (the size stays 12).
\<close>

theorem reupload_at_shared_name_raises:
  "filter (\<lambda>d. info_root d = ''/'' \<and> info_name d = ''hi.txt'' \<and> info_user_id d = 1)
     (datainfos shared_name_state) =
     [\<lparr>info_id = 1, info_root = ''/'', info_name = ''hi.txt'', info_is_dir = False,
        info_size = 12, info_user_id = 1\<rparr>] \<and>
   DataManager_create ex_decode_token ex_LoginedOnly True ''alice-token'' 1 0
     (Some \<lparr>file_filename = ''hi.txt'', file_content = ''new''\<rparr>) None shared_name_state
     = (Inl MultipleResultsFound, shared_name_state)"
  by (simp add: DataManager_create_def DataFileCRUDManager_create_def ex_defs eval_defs)

end
